theory Spec2Isabelle
  imports Complex_Main "HOL-Library.Word"
begin

unbundle bit_operations_syntax

section \<open>JavaScript strings and values\<close>

text \<open>
  A JavaScript string is modelled as a HOL \<^typ>\<open>string\<close>: the list of its code units,
  each below 256 (the Latin-1 range).  \<open>toLowerCase\<close> maps \<open>A..Z\<close> and the accented
  capitals \<open>U+00C0..U+00DE\<close> (except the multiplication sign \<open>U+00D7\<close>) to the letter 32
  code points above, as \<open>String.prototype.toLowerCase\<close> does on that range.
\<close>

definition lower_char :: "char \<Rightarrow> char" where
  "lower_char c = (let n = (of_char c :: nat) in
     if (65 \<le> n \<and> n \<le> 90) \<or> (192 \<le> n \<and> n \<le> 222 \<and> n \<noteq> 215)
     then char_of (n + 32) else c)"

definition toLowerCase :: "string \<Rightarrow> string" where
  "toLowerCase s = map lower_char s"

text \<open>
  The values a parsed webhook body can hold.  \<open>JOther b s\<close> is a number or a boolean,
  given by what the code observes of it: its truthiness \<open>b\<close> and its string conversion
  \<open>s\<close>.  \<open>JBuffer s\<close> is a Node \<open>Buffer\<close> whose UTF-8 decoding is \<open>s\<close>.  \<open>JObject kvs\<close> is a
  plain object with the own properties \<open>kvs\<close>, none of them a function, as a parser of
  JSON or of a form body builds it.
\<close>

datatype jsval =
    JUndefined
  | JNull
  | JString string
  | JBuffer string
  | JOther bool string
  | JArray "jsval list"
  | JObject "(string \<times> jsval) list"

text \<open>Truthiness (\<open>ToBoolean\<close>): what \<open>!x\<close>, \<open>x || y\<close> and \<open>if (x)\<close> test.\<close>

fun truthy :: "jsval \<Rightarrow> bool" where
  "truthy JUndefined = False"
| "truthy JNull = False"
| "truthy (JString s) = (s \<noteq> [])"
| "truthy (JBuffer s) = True"
| "truthy (JOther b s) = b"
| "truthy (JArray xs) = True"
| "truthy (JObject kvs) = True"

fun join_with :: "string \<Rightarrow> string list \<Rightarrow> string" where
  "join_with sep [] = []"
| "join_with sep [x] = x"
| "join_with sep (x # y # ys) = x @ sep @ join_with sep (y # ys)"

text \<open>
  String conversion (\<open>ToString\<close>), as a template literal \<open>`${x}`\<close> applies it; \<open>None\<close> is
  the \<open>TypeError\<close> it throws.  A plain object is converted by the \<open>toString\<close> it finds: the
  inherited one gives \<open>[object Object]\<close>; an own property of that name is not a function,
  and then the inherited \<open>valueOf\<close> returns the object itself, so the conversion throws.
  An array joins the conversions of its elements.
\<close>

fun toStr :: "jsval \<Rightarrow> string option" where
  "toStr JUndefined = Some ''undefined''"
| "toStr JNull = Some ''null''"
| "toStr (JString s) = Some s"
| "toStr (JBuffer s) = Some s"
| "toStr (JOther b s) = Some s"
| "toStr (JArray xs) =
     map_option (join_with '','')
       (those (map (\<lambda>x. if x = JUndefined \<or> x = JNull then Some [] else toStr x) xs))"
| "toStr (JObject kvs) =
     (if map_of kvs ''toString'' = None then Some ''[object Object]'' else None)"

text \<open>\<open>x || y\<close> and \<open>x ?? y\<close> on values.\<close>

definition js_or :: "jsval \<Rightarrow> jsval \<Rightarrow> jsval" where
  "js_or x y = (if truthy x then x else y)"

definition js_nullish_or :: "jsval \<Rightarrow> jsval \<Rightarrow> jsval" where
  "js_nullish_or x y = (if x = JUndefined \<or> x = JNull then y else x)"

text \<open>
  A template literal: its literal pieces and the values it substitutes, in order.  It
  throws when the conversion of one of the values throws (\<open>None\<close>).
\<close>

datatype part = Lit string | Sub jsval

fun template :: "part list \<Rightarrow> string option" where
  "template [] = Some []"
| "template (Lit s # ps) = map_option ((@) s) (template ps)"
| "template (Sub v # ps) =
     (case toStr v of None \<Rightarrow> None | Some s \<Rightarrow> map_option ((@) s) (template ps))"

section \<open>Numbers\<close>

text \<open>
  A JavaScript number is a double-precision value: not a number, an infinity, or a
  rational of the form \<open>m * 2^u\<close> with \<open>|m| \<le> 2^53\<close> and \<open>u \<ge> -1074\<close>.  The sign of a
  zero is not kept.
\<close>

datatype number = NaN | PosInfinity | NegInfinity | Finite rat

text \<open>\<open>ilog2 n\<close> is the position of the highest bit of \<open>n\<close>.\<close>

function ilog2 :: "int \<Rightarrow> nat" where
  "ilog2 n = (if n \<le> 1 then 0 else Suc (ilog2 (n div 2)))"
  by pat_completeness auto
termination
  by (relation "measure nat") auto

declare ilog2.simps [simp del]

text \<open>The exponent \<open>e\<close> with \<open>2^e \<le> num / den < 2^(e + 1)\<close>, for positive \<open>num\<close> and \<open>den\<close>.\<close>

definition floor_log2 :: "int \<Rightarrow> int \<Rightarrow> int" where
  "floor_log2 num den =
     (let e0 = int (ilog2 num) - int (ilog2 den)
      in if (if 0 \<le> e0 then den * 2 ^ nat e0 \<le> num else den \<le> num * 2 ^ nat (- e0))
         then e0 else e0 - 1)"

text \<open>The integer nearest to \<open>a / b\<close>, the even one of two that are equally near.\<close>

definition round_half_even :: "int \<Rightarrow> int \<Rightarrow> int" where
  "round_half_even a b =
     (let q = a div b; r = a mod b
      in if 2 * r < b then q
         else if b < 2 * r then q + 1
         else if even q then q else q + 1)"

definition scale2 :: "int \<Rightarrow> int \<Rightarrow> rat" where
  "scale2 m u = (if 0 \<le> u then of_int (m * 2 ^ nat u) else of_int m / of_int (2 ^ nat (- u)))"

text \<open>
  The double nearest to \<open>num / den\<close> (\<open>num \<ge> 0\<close>, \<open>den > 0\<close>): 53 significant bits, or a
  multiple of \<open>2^-1074\<close> below the normal range, ties to the even significand, and infinity
  from \<open>2^1024\<close> on.
\<close>

definition round_double :: "int \<Rightarrow> int \<Rightarrow> number" where
  "round_double num den =
     (if num = 0 then Finite 0
      else
        (let e = floor_log2 num den;
             u = max (e - 52) (- 1074);
             m = (if 0 \<le> u then round_half_even num (den * 2 ^ nat u)
                  else round_half_even (num * 2 ^ nat (- u)) den)
         in if 0 \<le> u \<and> 2 ^ 1024 \<le> m * 2 ^ nat u then PosInfinity else Finite (scale2 m u)))"

definition isWhiteSpace :: "char \<Rightarrow> bool" where
  "isWhiteSpace c = ((of_char c :: int) \<in> {9, 10, 11, 12, 13, 32, 160})"

definition isDigit :: "char \<Rightarrow> bool" where
  "isDigit c = (48 \<le> (of_char c :: int) \<and> (of_char c :: int) \<le> 57)"

definition digitsValue :: "string \<Rightarrow> int" where
  "digitsValue ds = foldl (\<lambda>acc c. 10 * acc + (of_char c - 48)) 0 ds"

text \<open>The exponent part \<open>e\<close>, sign, digits at the head of a string; 0 when it is not complete.\<close>

definition parseExponent :: "string \<Rightarrow> int" where
  "parseExponent s =
     (case s of
        [] \<Rightarrow> 0
      | c # r \<Rightarrow>
          if c = CHR ''e'' \<or> c = CHR ''E''
          then (case r of
                  [] \<Rightarrow> 0
                | sg # r' \<Rightarrow>
                    if sg = CHR ''-''
                    then (if takeWhile isDigit r' = [] then 0 else - digitsValue (takeWhile isDigit r'))
                    else if sg = CHR ''+''
                    then (if takeWhile isDigit r' = [] then 0 else digitsValue (takeWhile isDigit r'))
                    else (if takeWhile isDigit r = [] then 0 else digitsValue (takeWhile isDigit r)))
          else 0)"

text \<open>
  The longest unsigned decimal literal at the head of a string, rounded to a double:
  digits, an optional point and digits, an optional exponent; or the word \<open>Infinity\<close>.
\<close>

definition parseUnsigned :: "string \<Rightarrow> number" where
  "parseUnsigned s =
     (let ip = takeWhile isDigit s;
          r1 = dropWhile isDigit s;
          fp = (case r1 of c # r \<Rightarrow> if c = CHR ''.'' then takeWhile isDigit r else [] | [] \<Rightarrow> []);
          r2 = (case r1 of c # r \<Rightarrow> if c = CHR ''.'' then dropWhile isDigit r else r1 | [] \<Rightarrow> [])
      in if ip = [] \<and> fp = []
         then (if take 8 s = ''Infinity'' then PosInfinity else NaN)
         else
           (let k = parseExponent r2 - int (length fp);
                n = digitsValue (ip @ fp)
            in if 0 \<le> k then round_double (n * 10 ^ nat k) 1
               else round_double n (10 ^ nat (- k))))"

fun negate :: "number \<Rightarrow> number" where
  "negate NaN = NaN"
| "negate PosInfinity = NegInfinity"
| "negate NegInfinity = PosInfinity"
| "negate (Finite q) = Finite (- q)"

text \<open>\<open>parseFloat\<close> of a string: leading white space is skipped, then a sign, then the literal.\<close>

definition parseFloat :: "string \<Rightarrow> number" where
  "parseFloat s =
     (case dropWhile isWhiteSpace s of
        [] \<Rightarrow> NaN
      | c # r \<Rightarrow>
          if c = CHR ''-'' then negate (parseUnsigned r)
          else if c = CHR ''+'' then parseUnsigned r
          else parseUnsigned (c # r))"

section \<open>SHA-512\<close>

text \<open>
  \<open>crypto.createHash("sha512").update(s).digest("hex")\<close> is Node's SHA-512 of the UTF-8
  encoding of \<open>s\<close>, printed as 128 lower-case hexadecimal digits.  It is modelled by the
  algorithm of FIPS 180-4: bytes and lengths are integers, the eight working variables are
  64-bit words.
\<close>

type_synonym w64 = "64 word"

definition utf8_char :: "char \<Rightarrow> int list" where
  "utf8_char c = (let n = (of_char c :: int) in
     if n < 128 then [n] else [192 + n div 64, 128 + n mod 64])"

definition utf8 :: "string \<Rightarrow> int list" where
  "utf8 s = concat (map utf8_char s)"

definition K512 :: "w64 list" where
  "K512 = [
    0x428A2F98D728AE22, 0x7137449123EF65CD, 0xB5C0FBCFEC4D3B2F, 0xE9B5DBA58189DBBC,
    0x3956C25BF348B538, 0x59F111F1B605D019, 0x923F82A4AF194F9B, 0xAB1C5ED5DA6D8118,
    0xD807AA98A3030242, 0x12835B0145706FBE, 0x243185BE4EE4B28C, 0x550C7DC3D5FFB4E2,
    0x72BE5D74F27B896F, 0x80DEB1FE3B1696B1, 0x9BDC06A725C71235, 0xC19BF174CF692694,
    0xE49B69C19EF14AD2, 0xEFBE4786384F25E3, 0x0FC19DC68B8CD5B5, 0x240CA1CC77AC9C65,
    0x2DE92C6F592B0275, 0x4A7484AA6EA6E483, 0x5CB0A9DCBD41FBD4, 0x76F988DA831153B5,
    0x983E5152EE66DFAB, 0xA831C66D2DB43210, 0xB00327C898FB213F, 0xBF597FC7BEEF0EE4,
    0xC6E00BF33DA88FC2, 0xD5A79147930AA725, 0x06CA6351E003826F, 0x142929670A0E6E70,
    0x27B70A8546D22FFC, 0x2E1B21385C26C926, 0x4D2C6DFC5AC42AED, 0x53380D139D95B3DF,
    0x650A73548BAF63DE, 0x766A0ABB3C77B2A8, 0x81C2C92E47EDAEE6, 0x92722C851482353B,
    0xA2BFE8A14CF10364, 0xA81A664BBC423001, 0xC24B8B70D0F89791, 0xC76C51A30654BE30,
    0xD192E819D6EF5218, 0xD69906245565A910, 0xF40E35855771202A, 0x106AA07032BBD1B8,
    0x19A4C116B8D2D0C8, 0x1E376C085141AB53, 0x2748774CDF8EEB99, 0x34B0BCB5E19B48A8,
    0x391C0CB3C5C95A63, 0x4ED8AA4AE3418ACB, 0x5B9CCA4F7763E373, 0x682E6FF3D6B2B8A3,
    0x748F82EE5DEFB2FC, 0x78A5636F43172F60, 0x84C87814A1F0AB72, 0x8CC702081A6439EC,
    0x90BEFFFA23631E28, 0xA4506CEBDE82BDE9, 0xBEF9A3F7B2C67915, 0xC67178F2E372532B,
    0xCA273ECEEA26619C, 0xD186B8C721C0C207, 0xEADA7DD6CDE0EB1E, 0xF57D4F7FEE6ED178,
    0x06F067AA72176FBA, 0x0A637DC5A2C898A6, 0x113F9804BEF90DAE, 0x1B710B35131C471B,
    0x28DB77F523047D84, 0x32CAAB7B40C72493, 0x3C9EBE0A15C9BEBC, 0x431D67C49C100D4C,
    0x4CC5D4BECB3E42B6, 0x597F299CFC657E2A, 0x5FCB6FAB3AD6FAEC, 0x6C44198C4A475817]"

definition H512 :: "w64 list" where
  "H512 = [
    0x6A09E667F3BCC908, 0xBB67AE8584CAA73B, 0x3C6EF372FE94F82B, 0xA54FF53A5F1D36F1,
    0x510E527FADE682D1, 0x9B05688C2B3E6C1F, 0x1F83D9ABFB41BD6B, 0x5BE0CD19137E2179]"

definition be_bytes :: "nat \<Rightarrow> int \<Rightarrow> int list" where
  "be_bytes k n = map (\<lambda>i. (n div 256 ^ (k - 1 - i)) mod 256) [0..<k]"

definition pad512 :: "int list \<Rightarrow> int list" where
  "pad512 m = (let l = length m in
     m @ [128] @ replicate ((239 - l mod 128) mod 128) 0 @ be_bytes 16 (8 * int l))"

fun chunks :: "nat \<Rightarrow> 'a list \<Rightarrow> 'a list list" where
  "chunks n [] = []"
| "chunks n (x # xs) = take n (x # xs) # chunks n (drop (n - 1) xs)"

definition be_word :: "int list \<Rightarrow> w64" where
  "be_word bs = word_of_int (foldl (\<lambda>acc b. acc * 256 + b) 0 bs)"

definition Ch :: "w64 \<Rightarrow> w64 \<Rightarrow> w64 \<Rightarrow> w64" where
  "Ch x y z = (x AND y) XOR (NOT x AND z)"

definition Maj :: "w64 \<Rightarrow> w64 \<Rightarrow> w64 \<Rightarrow> w64" where
  "Maj x y z = (x AND y) XOR (x AND z) XOR (y AND z)"

definition Sigma0 :: "w64 \<Rightarrow> w64" where
  "Sigma0 x = word_rotr 28 x XOR word_rotr 34 x XOR word_rotr 39 x"

definition Sigma1 :: "w64 \<Rightarrow> w64" where
  "Sigma1 x = word_rotr 14 x XOR word_rotr 18 x XOR word_rotr 41 x"

definition sigma0 :: "w64 \<Rightarrow> w64" where
  "sigma0 x = word_rotr 1 x XOR word_rotr 8 x XOR drop_bit 7 x"

definition sigma1 :: "w64 \<Rightarrow> w64" where
  "sigma1 x = word_rotr 19 x XOR word_rotr 61 x XOR drop_bit 6 x"

fun extend :: "nat \<Rightarrow> w64 list \<Rightarrow> w64 list" where
  "extend 0 w = w"
| "extend (Suc n) w = (let t = length w in
     extend n (w @ [sigma1 (w ! (t - 2)) + w ! (t - 7) + sigma0 (w ! (t - 15)) + w ! (t - 16)]))"

fun round512 :: "w64 list \<Rightarrow> w64 \<times> w64 \<Rightarrow> w64 list" where
  "round512 [a, b, c, d, e, f, g, h] (k, w) =
     (let t1 = h + Sigma1 e + Ch e f g + k + w;
          t2 = Sigma0 a + Maj a b c
      in [t1 + t2, a, b, c, d + t1, e, f, g])"
| "round512 s _ = s"

definition compress :: "w64 list \<Rightarrow> int list \<Rightarrow> w64 list" where
  "compress hs blk = map2 (+) hs
     (foldl round512 hs (zip K512 (extend 64 (map be_word (chunks 8 blk)))))"

definition hex_digit :: "int \<Rightarrow> char" where
  "hex_digit n = (''0123456789abcdef'') ! nat (n mod 16)"

definition hex_word :: "w64 \<Rightarrow> string" where
  "hex_word w = map (\<lambda>i. hex_digit (uint (drop_bit (4 * (15 - i)) w))) [0..<16]"

definition sha512_hex :: "string \<Rightarrow> string" where
  "sha512_hex s = concat (map hex_word (foldl compress H512 (chunks 128 (pad512 (utf8 s)))))"

section \<open>PayuClient: the hash formulas\<close>

datatype environment = Test | Production

text \<open>\<open>PayuProviderConfig\<close> of \<open>types.ts\<close>.\<close>

record PayuProviderConfig =
  merchantKey :: string
  merchantSalt :: string
  environment :: environment
  autoCapture :: "bool option"

text \<open>The parameter object of \<open>generatePaymentHash\<close>; an optional field is an option.\<close>

record payment_hash_params =
  ph_txnid :: string
  ph_amount :: string
  ph_productinfo :: string
  ph_firstname :: string
  ph_email :: string
  ph_udf1 :: "string option"
  ph_udf2 :: "string option"
  ph_udf3 :: "string option"
  ph_udf4 :: "string option"
  ph_udf5 :: "string option"

text \<open>\<open>params.udfN || ""\<close>: absent and empty both give the empty string.\<close>

definition or_empty :: "string option \<Rightarrow> string" where
  "or_empty u = (case u of None \<Rightarrow> [] | Some s \<Rightarrow> s)"

text \<open>The local \<open>hashString\<close> of \<open>generatePaymentHash\<close>, the template literal as written.\<close>

definition paymentHashString :: "PayuProviderConfig \<Rightarrow> payment_hash_params \<Rightarrow> string" where
  "paymentHashString config params =
     (let key = merchantKey config;
          salt = merchantSalt config;
          udf1 = or_empty (ph_udf1 params);
          udf2 = or_empty (ph_udf2 params);
          udf3 = or_empty (ph_udf3 params);
          udf4 = or_empty (ph_udf4 params);
          udf5 = or_empty (ph_udf5 params)
      in key @ ''|'' @ ph_txnid params @ ''|'' @ ph_amount params @ ''|'' @
         ph_productinfo params @ ''|'' @ ph_firstname params @ ''|'' @ ph_email params @ ''|'' @
         udf1 @ ''|'' @ udf2 @ ''|'' @ udf3 @ ''|'' @ udf4 @ ''|'' @ udf5 @ ''||||||'' @ salt)"

definition generatePaymentHash :: "PayuProviderConfig \<Rightarrow> payment_hash_params \<Rightarrow> string" where
  "generatePaymentHash config params =
     toLowerCase (sha512_hex (paymentHashString config params))"

text \<open>
  The parameter object of \<open>verifyResponseHash\<close>.  The webhook handler passes what the
  payload holds, so every field is a JavaScript value; a field that is not passed is
  \<open>JUndefined\<close>.
\<close>

record response_hash_params =
  rh_status :: jsval
  rh_email :: jsval
  rh_firstname :: jsval
  rh_productinfo :: jsval
  rh_amount :: jsval
  rh_txnid :: jsval
  rh_hash :: jsval
  rh_udf1 :: jsval
  rh_udf2 :: jsval
  rh_udf3 :: jsval
  rh_udf4 :: jsval
  rh_udf5 :: jsval
  rh_additionalCharges :: jsval

text \<open>
  The local \<open>hashString\<close> of \<open>verifyResponseHash\<close>, both template literals as written;
  \<open>None\<close> when a substituted value cannot be converted and the literal throws.
\<close>

definition responseHashString :: "PayuProviderConfig \<Rightarrow> response_hash_params \<Rightarrow> string option" where
  "responseHashString config params =
     (let salt = merchantSalt config;
          key = merchantKey config;
          udf1 = js_or (rh_udf1 params) (JString []);
          udf2 = js_or (rh_udf2 params) (JString []);
          udf3 = js_or (rh_udf3 params) (JString []);
          udf4 = js_or (rh_udf4 params) (JString []);
          udf5 = js_or (rh_udf5 params) (JString []);
          body = [Sub (JString salt), Lit ''|'', Sub (rh_status params), Lit ''||||||'',
                  Sub udf5, Lit ''|'', Sub udf4, Lit ''|'', Sub udf3, Lit ''|'', Sub udf2, Lit ''|'',
                  Sub udf1, Lit ''|'', Sub (rh_email params), Lit ''|'',
                  Sub (rh_firstname params), Lit ''|'', Sub (rh_productinfo params), Lit ''|'',
                  Sub (rh_amount params), Lit ''|'', Sub (rh_txnid params), Lit ''|'',
                  Sub (JString key)]
      in if truthy (rh_additionalCharges params)
         then template (Sub (rh_additionalCharges params) # Lit ''|'' # body)
         else template body)"

text \<open>
  Errors thrown by the code.  A \<open>TypeError\<close> is the engine's own and carries the message
  V8 gives it; \<open>Error\<close> and \<open>MedusaError\<close> carry the message the code gives them.
\<close>

datatype medusa_error_type = INVALID_DATA | UNEXPECTED_STATE

datatype error =
    TypeError string
  | Error string
  | MedusaError medusa_error_type string

definition quoted :: "string \<Rightarrow> string" where
  "quoted s = [CHR 0x27] @ s @ [CHR 0x27]"

text \<open>Reading the property \<open>name\<close> of \<open>undefined\<close> or of \<open>null\<close>.\<close>

definition cannot_read :: "string \<Rightarrow> string \<Rightarrow> error" where
  "cannot_read nullish name =
     TypeError (''Cannot read properties of '' @ nullish @ '' (reading '' @ quoted name @ '')'')"

text \<open>Calling a property that is not a function.\<close>

definition not_a_function :: "string \<Rightarrow> error" where
  "not_a_function callee = TypeError (callee @ '' is not a function'')"

definition cannot_convert :: error where
  "cannot_convert = TypeError ''Cannot convert object to primitive value''"

text \<open>
  \<open>verifyResponseHash\<close>.  \<open>params.hash.toLowerCase()\<close> is a method call on the value
  passed as hash: it throws a \<open>TypeError\<close> unless that value is a string.
\<close>

definition verifyResponseHash :: "PayuProviderConfig \<Rightarrow> response_hash_params \<Rightarrow> error + bool" where
  "verifyResponseHash config params =
     (case responseHashString config params of
        None \<Rightarrow> Inl cannot_convert
      | Some hashString \<Rightarrow>
          (let calculatedHash = toLowerCase (sha512_hex hashString)
           in case rh_hash params of
                JString h \<Rightarrow> Inr (calculatedHash = toLowerCase h)
              | JUndefined \<Rightarrow> Inl (cannot_read ''undefined'' ''toLowerCase'')
              | JNull \<Rightarrow> Inl (cannot_read ''null'' ''toLowerCase'')
              | _ \<Rightarrow> Inl (not_a_function ''params.hash.toLowerCase'')))"

section \<open>PayuClient: calls to the gateway\<close>

text \<open>
  A request sent with \<open>fetch\<close> (always a form-encoded POST): its URL and the entries of
  its body.  Every function that can reach the network returns, next to its outcome, the
  list of the requests it sent, in order.
\<close>

record http_request =
  req_url :: string
  req_body :: "(string \<times> string) list"

text \<open>
  What \<open>fetch\<close> followed by \<open>response.json()\<close> can do: the timer aborts the request, the
  call fails with some other error, or a body arrives and parses to a value.
\<close>

datatype 'r fetch_outcome = Aborted | Rejected error | Json 'r

text \<open>A thrown error or a returned value, with the requests sent on the way.\<close>

type_synonym 'a io = "(error + 'a) \<times> http_request list"

definition API_TIMEOUT_MS :: string where
  "API_TIMEOUT_MS = ''30000''"

text \<open>\<open>fetchWithTimeout\<close>: an abort becomes the time-out error, any other error is rethrown.\<close>

definition fetchWithTimeout :: "(http_request \<Rightarrow> 'r fetch_outcome) \<Rightarrow> http_request \<Rightarrow> 'r io" where
  "fetchWithTimeout fetch req =
     (case fetch req of
        Aborted \<Rightarrow> (Inl (Error (''PayU API request timed out after '' @ API_TIMEOUT_MS @ ''ms'')), [req])
      | Rejected e \<Rightarrow> (Inl e, [req])
      | Json r \<Rightarrow> (Inr r, [req]))"

definition getPaymentUrl :: "PayuProviderConfig \<Rightarrow> string" where
  "getPaymentUrl config =
     (if environment config = Production then ''https://secure.payu.in/_payment''
      else ''https://test.payu.in/_payment'')"

definition apiUrl :: "PayuProviderConfig \<Rightarrow> string" where
  "apiUrl config =
     (if environment config = Production then ''https://info.payu.in/merchant/postservice.php?form=2''
      else ''https://test.payu.in/merchant/postservice.php?form=2'')"

text \<open>One entry of \<open>transaction_details\<close> in \<open>PayuVerifyResponse\<close>.\<close>

record payu_transaction =
  txn_mihpayid :: string
  txn_status :: string
  txn_amt :: string
  txn_txnid :: string
  txn_mode :: string
  txn_bank_ref_num :: "string option"
  txn_error_code :: "string option"
  txn_error_Message :: "string option"

text \<open>
  \<open>PayuVerifyResponse\<close>.  The body comes from the gateway and is only cast to the type, so
  \<open>transaction_details\<close> may be missing (\<open>None\<close>); when present it maps a txnid to its
  entry.
\<close>

record PayuVerifyResponse =
  vr_status :: int
  vr_msg :: string
  vr_transaction_details :: "(string \<rightharpoonup> payu_transaction) option"

record PayuRefundResponse =
  rr_status :: int
  rr_msg :: "string option"
  rr_request_id :: "string option"
  rr_mihpayid :: "string option"
  rr_error_code :: "string option"

text \<open>What the gateway answers to each of the two commands.\<close>

record gateway =
  verify_endpoint :: "http_request \<Rightarrow> PayuVerifyResponse fetch_outcome"
  refund_endpoint :: "http_request \<Rightarrow> PayuRefundResponse fetch_outcome"

text \<open>The request \<open>verifyPayment\<close> builds, and the call that sends it.\<close>

definition verifyPaymentRequest :: "PayuProviderConfig \<Rightarrow> string \<Rightarrow> http_request" where
  "verifyPaymentRequest config txnid =
     (let command = ''verify_payment'';
          hashString = merchantKey config @ ''|'' @ command @ ''|'' @ txnid @ ''|'' @ merchantSalt config;
          hash = sha512_hex hashString
      in \<lparr>req_url = apiUrl config,
          req_body = [(''key'', merchantKey config), (''command'', command),
                  (''var1'', txnid), (''hash'', hash)]\<rparr>)"

definition verifyPayment :: "PayuProviderConfig \<Rightarrow> gateway \<Rightarrow> string \<Rightarrow> PayuVerifyResponse io" where
  "verifyPayment config gw txnid =
     fetchWithTimeout (verify_endpoint gw) (verifyPaymentRequest config txnid)"

definition refund :: "PayuProviderConfig \<Rightarrow> gateway \<Rightarrow> string \<Rightarrow> string \<Rightarrow> string \<Rightarrow> PayuRefundResponse io" where
  "refund config gw mihpayid tokenId amount =
     (let command = ''cancel_refund_transaction'';
          hashString = merchantKey config @ ''|'' @ command @ ''|'' @ mihpayid @ ''|'' @ merchantSalt config;
          hash = sha512_hex hashString
      in fetchWithTimeout (refund_endpoint gw)
           \<lparr>req_url = apiUrl config,
            req_body = [(''key'', merchantKey config), (''command'', command),
                    (''var1'', mihpayid), (''var2'', tokenId), (''var3'', amount),
                    (''hash'', hash)]\<rparr>)"

section \<open>The payment session\<close>

datatype PayuPaymentStatus = Pending | Authorized | Captured | Failed | Refunded | Cancelled

text \<open>\<open>PaymentSessionStatus\<close> of the platform.\<close>

datatype PaymentSessionStatus = AUTHORIZED | CAPTURED | PENDING | REQUIRES_MORE | ERROR | CANCELED

record form_data =
  fd_key :: string
  fd_txnid :: string
  fd_amount :: string
  fd_productinfo :: string
  fd_firstname :: string
  fd_email :: string
  fd_phone :: string
  fd_surl :: string
  fd_furl :: string
  fd_hash :: string
  fd_service_provider :: string

record refund_record =
  rf_tokenId :: string
  rf_amount :: string
  rf_request_id :: "string option"
  rf_response :: PayuRefundResponse

text \<open>
  \<open>PayuSessionData\<close>, with the two fields the service adds to the stored data beside
  the declared ones (\<open>form_data\<close> and \<open>refund\<close>).  An object spread
  \<open>{...sessionData, status: s}\<close> is a record update.
\<close>

record PayuSessionData =
  sd_txnid :: string
  sd_amount :: string
  sd_productinfo :: string
  sd_firstname :: string
  sd_email :: string
  sd_phone :: string
  sd_hash :: string
  sd_paymentUrl :: string
  sd_status :: PayuPaymentStatus
  sd_countryCode :: "string option"
  sd_payuTransactionId :: "string option"
  sd_payuResponse :: "payu_transaction option"
  sd_form_data :: "form_data option"
  sd_refund :: "refund_record option"

text \<open>Truthiness of an optional string: present and not empty.\<close>

definition present :: "string option \<Rightarrow> bool" where
  "present v = (case v of None \<Rightarrow> False | Some s \<Rightarrow> s \<noteq> [])"

text \<open>\<open>a || b\<close> on optional strings.\<close>

definition opt_or :: "string option \<Rightarrow> string option \<Rightarrow> string option" where
  "opt_or a b = (if present a then a else b)"

section \<open>PayuPaymentProviderService: authorize, capture, refund, cancel\<close>

record authorize_output =
  ao_status :: PaymentSessionStatus
  ao_data :: PayuSessionData

text \<open>
  \<open>authorizePayment\<close>.  \<open>input.data\<close> is optional in the platform's input type; reading
  \<open>status\<close> of a missing one throws.  The \<open>catch\<close> block logs and rethrows.
\<close>

definition authorizePayment :: "PayuProviderConfig \<Rightarrow> gateway \<Rightarrow> PayuSessionData option \<Rightarrow> authorize_output io" where
  "authorizePayment config gw input_data =
     (case input_data of
        None \<Rightarrow> (Inl (cannot_read ''undefined'' ''status''), [])
      | Some sessionData \<Rightarrow>
          if sd_status sessionData = Authorized \<or> sd_status sessionData = Captured
          then (Inr \<lparr>ao_status = AUTHORIZED, ao_data = sessionData\<rparr>, [])
          else
            (case verifyPayment config gw (sd_txnid sessionData) of
               (Inl e, reqs) \<Rightarrow> (Inl e, reqs)
             | (Inr response, reqs) \<Rightarrow>
                 if vr_status response = 1
                 then (case vr_transaction_details response of
                         None \<Rightarrow> (Inl (cannot_read ''undefined'' (sd_txnid sessionData)), reqs)
                       | Some details \<Rightarrow>
                           (case details (sd_txnid sessionData) of
                              Some txn \<Rightarrow>
                                if txn_status txn = ''success''
                                then (Inr \<lparr>ao_status = AUTHORIZED,
                                           ao_data = sessionData
                                             \<lparr>sd_status := Authorized,
                                              sd_payuTransactionId := Some (txn_mihpayid txn),
                                              sd_payuResponse := Some txn\<rparr>\<rparr>, reqs)
                                else (Inr \<lparr>ao_status = ERROR,
                                           ao_data = sessionData\<lparr>sd_status := Failed\<rparr>\<rparr>, reqs)
                            | None \<Rightarrow>
                                (Inr \<lparr>ao_status = ERROR,
                                      ao_data = sessionData\<lparr>sd_status := Failed\<rparr>\<rparr>, reqs)))
                 else (Inr \<lparr>ao_status = ERROR,
                            ao_data = sessionData\<lparr>sd_status := Failed\<rparr>\<rparr>, reqs)))"

definition capturePayment :: "PayuSessionData \<Rightarrow> PayuSessionData" where
  "capturePayment sessionData = sessionData\<lparr>sd_status := Captured\<rparr>"

definition cancelPayment :: "PayuSessionData \<Rightarrow> PayuSessionData" where
  "cancelPayment sessionData = sessionData\<lparr>sd_status := Cancelled\<rparr>"

text \<open>
  \<open>new BigNumber(n)\<close> of the platform, for a number: it refuses \<open>NaN\<close> with an error
  and keeps every other number as it is.
\<close>

definition BigNumber :: "number \<Rightarrow> error + number" where
  "BigNumber n =
     (if n = NaN
      then Inl (Error (''Invalid BigNumber value: NaN. Should be one of: string, number, '' @
                       ''BigNumber (bignumber.js), BigNumberRawValue''))
      else Inr n)"

text \<open>
  What is left to the runtime: printing a number with two decimals (\<open>toFixed(2)\<close>) and
  decoding a form body (\<open>new URLSearchParams(s)\<close>, as the list of its entries).
\<close>

record runtime =
  toFixed2 :: "number \<Rightarrow> string"
  URLSearchParams :: "string \<Rightarrow> (string \<times> string) list"

text \<open>An amount handed over by the platform: a string, or a value \<open>Number(x)\<close> converts.\<close>

datatype amount_input = AmountString string | AmountNumber number

definition formatAmount :: "runtime \<Rightarrow> amount_input \<Rightarrow> string" where
  "formatAmount rt amount =
     toFixed2 rt (case amount of AmountString s \<Rightarrow> parseFloat s | AmountNumber n \<Rightarrow> n)"

text \<open>\<open>haystack.includes(needle)\<close>.\<close>

fun includes_str :: "string \<Rightarrow> string \<Rightarrow> bool" where
  "includes_str [] needle = (needle = [])"
| "includes_str (c # cs) needle = (take (length needle) (c # cs) = needle \<or> includes_str cs needle)"

text \<open>\<open>response.msg?.toLowerCase?.().includes?.(needle)\<close>: false when there is no message.\<close>

definition msg_includes :: "string option \<Rightarrow> string \<Rightarrow> bool" where
  "msg_includes msg needle =
     (case msg of None \<Rightarrow> False | Some m \<Rightarrow> includes_str (toLowerCase m) needle)"

definition NO_TRANSACTION_ID :: string where
  "NO_TRANSACTION_ID = ''No PayU transaction ID (mihpayid) found. '' @
     ''This payment may not have been fully captured or the session data is incomplete.''"

text \<open>The message of a refund the gateway refused, as the chain of \<open>if\<close>s builds it.\<close>

definition refundErrorMessage :: "string option \<Rightarrow> string \<Rightarrow> string \<Rightarrow> string" where
  \<open>refundErrorMessage msg payuTransactionId refundAmount =
     (if msg_includes msg ''try after some time''
      then ''PayU says: "'' @ or_empty msg @ ''". '' @
           ''This usually means: '' @
           ''(1) The payment was captured today and PayU requires 24 hours before refund, '' @
           ''(2) A refund is already in progress for this transaction, or '' @
           ''(3) PayU is experiencing temporary issues. Please try again later.''
      else if msg_includes msg ''token already used''
      then ''Refund token already used. A refund may already be pending for this transaction. '' @
           ''Please check the transaction status in PayU dashboard.''
      else if msg_includes msg ''transaction not exists''
      then ''Transaction not found in PayU. The mihpayid ('' @ payuTransactionId @ '') may be incorrect.''
      else if msg_includes msg ''amount''
      then ''Invalid refund amount ('' @ refundAmount @
           ''). Please ensure it doesn't exceed the original transaction amount.''
      else if present msg then or_empty msg else ''Unknown error'')\<close>

text \<open>
  The outer \<open>catch\<close> of \<open>refundPayment\<close>: a \<open>MedusaError\<close> is rethrown as it is, any
  other error is wrapped with its message.
\<close>

fun error_message :: "error \<Rightarrow> string" where
  "error_message (TypeError m) = m"
| "error_message (Error m) = m"
| "error_message (MedusaError t m) = m"

fun wrap_unexpected :: "error \<Rightarrow> error" where
  "wrap_unexpected (MedusaError t m) = MedusaError t m"
| "wrap_unexpected e = MedusaError UNEXPECTED_STATE (error_message e)"

text \<open>
  \<open>refundPayment\<close>.  \<open>now\<close> is the text of \<open>Date.now()\<close> at the call.
\<close>

definition refundPayment ::
  "PayuProviderConfig \<Rightarrow> runtime \<Rightarrow> gateway \<Rightarrow> string \<Rightarrow>
   PayuSessionData option \<Rightarrow> amount_input \<Rightarrow> PayuSessionData io" where
  "refundPayment config rt gw now input_data input_amount =
     (case input_data of
        None \<Rightarrow> (Inl (wrap_unexpected (cannot_read ''undefined'' ''payuTransactionId'')), [])
      | Some sessionData \<Rightarrow>
          if \<not> present (sd_payuTransactionId sessionData)
          then (Inl (wrap_unexpected (Error NO_TRANSACTION_ID)), [])
          else
            (let payuTransactionId = or_empty (sd_payuTransactionId sessionData);
                 tokenId = ''REF_'' @ payuTransactionId @ ''_'' @ now;
                 refundAmount = formatAmount rt input_amount
             in case refund config gw payuTransactionId tokenId refundAmount of
                  (Inl e, reqs) \<Rightarrow> (Inl (wrap_unexpected e), reqs)
                | (Inr response, reqs) \<Rightarrow>
                    if rr_status response = 1
                    then (Inr (sessionData
                            \<lparr>sd_status := Refunded,
                             sd_refund := Some \<lparr>rf_tokenId = tokenId, rf_amount = refundAmount,
                                               rf_request_id = rr_request_id response,
                                               rf_response = response\<rparr>\<rparr>), reqs)
                    else (Inl (wrap_unexpected (MedusaError INVALID_DATA
                            (''Refund failed: '' @
                             refundErrorMessage (rr_msg response) payuTransactionId refundAmount))),
                          reqs)))"

section \<open>PayuPaymentProviderService: initiatePayment\<close>

record address =
  addr_phone :: "string option"

record customer =
  cu_email :: "string option"
  cu_first_name :: "string option"
  cu_phone :: "string option"
  cu_billing_address :: "address option"

record payment_context =
  ctx_customer :: "customer option"

text \<open>The entries of \<open>input.data\<close> that \<open>initiatePayment\<close> reads, each cast to a string.\<close>

record initiate_data =
  id_email :: "string option"
  id_firstname :: "string option"
  id_first_name :: "string option"
  id_shipping_address_phone :: "string option"
  id_phone :: "string option"
  id_productinfo :: "string option"
  id_country_code :: "string option"

text \<open>The three variables read from \<open>process.env\<close>.\<close>

record process_env =
  STOREFRONT_URL :: "string option"
  PAYU_REDIRECT_URL :: "string option"
  PAYU_REDIRECT_FAILURE_URL :: "string option"

record InitiatePaymentInput =
  ip_amount :: amount_input
  ip_context :: "payment_context option"
  ip_data :: "initiate_data option"

record initiate_output =
  io_id :: string
  io_data :: PayuSessionData

text \<open>
  \<open>generateTxnId\<close>: \<open>now\<close> is the text of \<open>Date.now()\<close>, \<open>random\<close> the eight hexadecimal
  digits of \<open>crypto.randomBytes(4)\<close>.
\<close>

definition generateTxnId :: "string \<Rightarrow> string \<Rightarrow> string" where
  "generateTxnId now random = ''TXN_'' @ now @ ''_'' @ random"

definition EMAIL_REQUIRED :: string where
  "EMAIL_REQUIRED = ''Customer email is required for payment processing. '' @
     ''Pass email in data payload or ensure customer is logged in.''"

definition NAME_REQUIRED :: string where
  "NAME_REQUIRED = ''Customer name is required for payment processing. Pass firstname in data payload.''"

definition PHONE_REQUIRED :: string where
  "PHONE_REQUIRED = ''Phone number is required for payment processing. Pass phone in data payload.''"

definition URLS_REQUIRED :: string where
  "URLS_REQUIRED = ''STOREFRONT_URL, PAYU_REDIRECT_URL, and PAYU_REDIRECT_FAILURE_URL '' @
     ''environment variables are required''"

text \<open>
  \<open>initiatePayment\<close>.  \<open>customer?.email\<close> and the like are \<open>Option.bind\<close>; each \<open>throw\<close>
  leaves through the \<open>catch\<close> block, which logs and rethrows.  The function sends no
  request.
\<close>

definition initiatePayment ::
  "PayuProviderConfig \<Rightarrow> runtime \<Rightarrow> process_env \<Rightarrow> string \<Rightarrow> string \<Rightarrow>
   InitiatePaymentInput \<Rightarrow> initiate_output io" where
  "initiatePayment config rt env now random input =
     (let txnid = generateTxnId now random;
          formattedAmount = formatAmount rt (ip_amount input);
          customer = Option.bind (ip_context input) ctx_customer;
          inputData = ip_data input;
          email = opt_or (Option.bind customer cu_email) (Option.bind inputData id_email)
      in if \<not> present email then (Inl (Error EMAIL_REQUIRED), [])
         else
          (let firstname = opt_or (opt_or (Option.bind customer cu_first_name)
                                          (Option.bind inputData id_firstname))
                                  (Option.bind inputData id_first_name)
           in if \<not> present firstname then (Inl (Error NAME_REQUIRED), [])
              else
               (let phone = opt_or (opt_or (opt_or (Option.bind customer cu_phone)
                                (Option.bind (Option.bind customer cu_billing_address) addr_phone))
                                (Option.bind inputData id_shipping_address_phone))
                                (Option.bind inputData id_phone)
                in if \<not> present phone then (Inl (Error PHONE_REQUIRED), [])
                   else
                    (let productinfo = or_empty (opt_or (Option.bind inputData id_productinfo)
                                                        (Some ''Order Payment''));
                         storefrontUrl = STOREFRONT_URL env;
                         redirectPath = PAYU_REDIRECT_URL env;
                         redirectFailurePath = PAYU_REDIRECT_FAILURE_URL env
                     in if \<not> present storefrontUrl \<or> \<not> present redirectPath \<or>
                           \<not> present redirectFailurePath
                        then (Inl (Error URLS_REQUIRED), [])
                        else
                         (let countryCode = or_empty (opt_or (Option.bind inputData id_country_code)
                                                             (Some ''in''));
                              surl = or_empty storefrontUrl @ ''/'' @ countryCode @ or_empty redirectPath;
                              furl = or_empty storefrontUrl @ ''/'' @ countryCode @
                                     or_empty redirectFailurePath;
                              hash = generatePaymentHash config
                                \<lparr>ph_txnid = txnid, ph_amount = formattedAmount,
                                 ph_productinfo = productinfo, ph_firstname = or_empty firstname,
                                 ph_email = or_empty email, ph_udf1 = None, ph_udf2 = None,
                                 ph_udf3 = None, ph_udf4 = None, ph_udf5 = None\<rparr>
                          in (Inr \<lparr>io_id = txnid,
                                   io_data =
                                     \<lparr>sd_txnid = txnid, sd_amount = formattedAmount,
                                      sd_productinfo = productinfo, sd_firstname = or_empty firstname,
                                      sd_email = or_empty email, sd_phone = or_empty phone,
                                      sd_hash = hash, sd_paymentUrl = getPaymentUrl config,
                                      sd_status = Pending, sd_countryCode = Some countryCode,
                                      sd_payuTransactionId = None, sd_payuResponse = None,
                                      sd_form_data = Some
                                        \<lparr>fd_key = merchantKey config, fd_txnid = txnid,
                                         fd_amount = formattedAmount, fd_productinfo = productinfo,
                                         fd_firstname = or_empty firstname, fd_email = or_empty email,
                                         fd_phone = or_empty phone, fd_surl = surl, fd_furl = furl,
                                         fd_hash = hash, fd_service_provider = ''payu_paisa''\<rparr>,
                                      sd_refund = None\<rparr>\<rparr>, []))))))"

section \<open>PayuPaymentProviderService: the webhook handler\<close>

text \<open>
  Reading a property of a value that is not \<open>null\<close> or \<open>undefined\<close>, and reading one
  through \<open>?.\<close>: an object yields the entry under the name (the first one in the list),
  anything else yields \<open>undefined\<close> for the names the handler reads.
\<close>

fun get_prop :: "jsval \<Rightarrow> string \<Rightarrow> jsval" where
  "get_prop (JObject kvs) k = (case map_of kvs k of Some v \<Rightarrow> v | None \<Rightarrow> JUndefined)"
| "get_prop v k = JUndefined"

text \<open>\<open>typeof v === 'object'\<close>.\<close>

fun is_object :: "jsval \<Rightarrow> bool" where
  "is_object JNull = True"
| "is_object (JBuffer s) = True"
| "is_object (JArray xs) = True"
| "is_object (JObject kvs) = True"
| "is_object v = False"

text \<open>\<open>Object.fromEntries(params.entries())\<close>: of two entries with one name the later wins.\<close>

definition fromEntries :: "(string \<times> string) list \<Rightarrow> jsval" where
  "fromEntries entries = JObject (rev (map (\<lambda>(k, v). (k, JString v)) entries))"

text \<open>
  The logger.  Every call is written \<open>this.logger_?.level?.(`...`)\<close>: when the logger has
  the method, the template literal is evaluated, which throws if a substituted value
  cannot be converted, and the message is logged; when it has not, nothing is evaluated.
  A logger is given by the methods it has.  Of a logged message the level and the kind
  are kept, not the text.
\<close>

datatype log_level = Debug | Info | Warn | LogError

type_synonym logger = "log_level \<Rightarrow> bool"

datatype webhook_event =
    RawPayloadStructure
  | FoundRawData
  | ParsedRawData
  | UsingDataData
  | DataDataWithoutTxnidStatus
  | UsingDataDirectly
  | InvalidPayloadNoData
  | InvalidPayloadMissingFields
  | WebhookReceived
  | HashVerificationFailed
  | HashVerified
  | PaymentSuccess
  | PaymentFailed
  | RefundProcessed
  | DisputeChargebackManualReview
  | UnhandledStatus
  | ProcessingError

type_synonym log = "(log_level \<times> webhook_event) list"

text \<open>A step of the \<open>try\<close> block: what it logs, and the error it throws or the value it yields.\<close>

type_synonym 'a attempt = "log \<times> (error + 'a)"

definition and_then :: "'a attempt \<Rightarrow> ('a \<Rightarrow> 'b attempt) \<Rightarrow> 'b attempt" where
  "and_then m f =
     (case m of
        (log1, Inl e) \<Rightarrow> (log1, Inl e)
      | (log1, Inr x) \<Rightarrow> (case f x of (log2, r) \<Rightarrow> (log1 @ log2, r)))"

definition yield :: "'a \<Rightarrow> 'a attempt" where
  "yield x = ([], Inr x)"

text \<open>One call of the logger, with the values its template literal substitutes.\<close>

definition emit :: "logger \<Rightarrow> log_level \<Rightarrow> webhook_event \<Rightarrow> jsval list \<Rightarrow> unit attempt" where
  "emit logger level event subs =
     (if logger level
      then (if list_all (\<lambda>v. toStr v \<noteq> None) subs then ([(level, event)], Inr ())
            else ([], Inl cannot_convert))
      else ([], Inr ()))"

datatype webhook_action = action_authorized | action_failed | action_not_supported

record webhook_data =
  wd_session_id :: jsval
  wd_amount :: number

record WebhookActionResult =
  wa_action :: webhook_action
  wa_data :: "webhook_data option"

definition not_supported :: WebhookActionResult where
  "not_supported = \<lparr>wa_action = action_not_supported, wa_data = None\<rparr>"

text \<open>
  The first part of the handler: which value is taken as the webhook.  The raw body comes
  first, then \<open>data.data\<close>, then the payload itself; \<open>None\<close> is the final \<open>else\<close>.
\<close>

definition selectWebhook :: "runtime \<Rightarrow> logger \<Rightarrow> jsval \<Rightarrow> jsval option attempt" where
  "selectWebhook rt logger payload =
     (if truthy (get_prop payload ''rawData'')
      then and_then (emit logger Debug FoundRawData []) (\<lambda>_.
             case get_prop payload ''rawData'' of
               JString bodyStr \<Rightarrow>
                 and_then (emit logger Debug ParsedRawData
                             [get_prop (fromEntries (URLSearchParams rt bodyStr)) ''txnid'']) (\<lambda>_.
                   yield (Some (fromEntries (URLSearchParams rt bodyStr))))
             | JBuffer bodyStr \<Rightarrow>
                 and_then (emit logger Debug ParsedRawData
                             [get_prop (fromEntries (URLSearchParams rt bodyStr)) ''txnid'']) (\<lambda>_.
                   yield (Some (fromEntries (URLSearchParams rt bodyStr))))
             | rawData \<Rightarrow> yield (Some rawData))
      else if truthy (get_prop payload ''data'') \<and> is_object (get_prop payload ''data'')
      then (if truthy (get_prop (get_prop payload ''data'') ''txnid'') \<or>
               truthy (get_prop (get_prop payload ''data'') ''status'')
            then and_then (emit logger Debug UsingDataData
                             [get_prop (get_prop payload ''data'') ''txnid'']) (\<lambda>_.
                   yield (Some (get_prop payload ''data'')))
            else and_then (emit logger Warn DataDataWithoutTxnidStatus []) (\<lambda>_.
                   yield (Some (get_prop payload ''data''))))
      else if truthy (get_prop payload ''txnid'') \<or> truthy (get_prop payload ''status'')
      then and_then (emit logger Debug UsingDataDirectly [get_prop payload ''txnid'']) (\<lambda>_.
             yield (Some payload))
      else and_then (emit logger LogError InvalidPayloadNoData []) (\<lambda>_. yield None))"

text \<open>The argument the handler passes to \<open>verifyResponseHash\<close>; it passes no additional charges.\<close>

definition webhookHashParams :: "jsval \<Rightarrow> response_hash_params" where
  "webhookHashParams webhook =
     \<lparr>rh_status = get_prop webhook ''status'', rh_email = get_prop webhook ''email'',
      rh_firstname = get_prop webhook ''firstname'', rh_productinfo = get_prop webhook ''productinfo'',
      rh_amount = get_prop webhook ''amount'', rh_txnid = get_prop webhook ''txnid'',
      rh_hash = get_prop webhook ''hash'', rh_udf1 = get_prop webhook ''udf1'',
      rh_udf2 = get_prop webhook ''udf2'', rh_udf3 = get_prop webhook ''udf3'',
      rh_udf4 = get_prop webhook ''udf4'', rh_udf5 = get_prop webhook ''udf5'',
      rh_additionalCharges = JUndefined\<rparr>"

text \<open>
  \<open>new BigNumber(parseFloat(webhook.amount))\<close>: \<open>parseFloat\<close> converts its argument to a
  string first.
\<close>

definition webhookAmount :: "jsval \<Rightarrow> number attempt" where
  "webhookAmount webhook =
     (case toStr (get_prop webhook ''amount'') of
        None \<Rightarrow> ([], Inl cannot_convert)
      | Some s \<Rightarrow> ([], BigNumber (parseFloat s)))"

text \<open>
  The end of the handler, after the hash is verified: the classification by the
  lower-cased status.  \<open>webhook.status.toLowerCase()\<close> throws unless the status is a
  string.
\<close>

definition classifyWebhook :: "logger \<Rightarrow> jsval \<Rightarrow> WebhookActionResult attempt" where
  "classifyWebhook logger webhook =
     (let sessionId = js_or (get_prop webhook ''udf1'') (get_prop webhook ''txnid'')
      in case get_prop webhook ''status'' of
           JString s \<Rightarrow>
             (let status = toLowerCase s
              in if status = ''success''
                 then and_then (emit logger Info PaymentSuccess
                                  [get_prop webhook ''txnid'', sessionId]) (\<lambda>_.
                      and_then (webhookAmount webhook) (\<lambda>a.
                        yield \<lparr>wa_action = action_authorized,
                               wa_data = Some \<lparr>wd_session_id = sessionId, wd_amount = a\<rparr>\<rparr>))
                 else if status = ''failure'' \<or> status = ''failed''
                 then and_then (emit logger Info PaymentFailed
                                  [get_prop webhook ''txnid'',
                                   js_or (get_prop webhook ''error'') (JString ''N/A''),
                                   js_or (get_prop webhook ''error_Message'') (JString ''N/A'')]) (\<lambda>_.
                      and_then (webhookAmount webhook) (\<lambda>a.
                        yield \<lparr>wa_action = action_failed,
                               wa_data = Some \<lparr>wd_session_id = sessionId, wd_amount = a\<rparr>\<rparr>))
                 else if status = ''refund'' \<or> status = ''refunded''
                 then and_then (emit logger Info RefundProcessed
                                  [get_prop webhook ''txnid'',
                                   js_or (get_prop webhook ''mihpayid'') (JString ''N/A''),
                                   get_prop webhook ''amount'']) (\<lambda>_. yield not_supported)
                 else if status = ''dispute'' \<or> status = ''chargeback''
                 then and_then (emit logger Warn DisputeChargebackManualReview
                                  [get_prop webhook ''txnid'',
                                   js_or (get_prop webhook ''mihpayid'') (JString ''N/A''),
                                   get_prop webhook ''amount'']) (\<lambda>_. yield not_supported)
                 else and_then (emit logger Info UnhandledStatus
                                  [get_prop webhook ''status'', get_prop webhook ''txnid'']) (\<lambda>_.
                        yield not_supported))
         | _ \<Rightarrow> ([], Inl (not_a_function ''webhook.status.toLowerCase'')))"

text \<open>The body of the \<open>try\<close> block: the log it writes and how it ends.\<close>

definition webhookTry ::
  "PayuProviderConfig \<Rightarrow> runtime \<Rightarrow> logger \<Rightarrow> jsval \<Rightarrow> WebhookActionResult attempt" where
  "webhookTry config rt logger payload =
     and_then (emit logger Info RawPayloadStructure []) (\<lambda>_.
     and_then (selectWebhook rt logger payload) (\<lambda>selected.
       case selected of
         None \<Rightarrow> yield not_supported
       | Some webhook \<Rightarrow>
           if \<not> truthy (get_prop webhook ''txnid'') \<or> \<not> truthy (get_prop webhook ''status'') \<or>
              \<not> truthy (get_prop webhook ''hash'')
           then and_then (emit logger LogError InvalidPayloadMissingFields
                            [js_nullish_or (get_prop webhook ''txnid'') (JString ''MISSING''),
                             js_nullish_or (get_prop webhook ''status'') (JString ''MISSING'')]) (\<lambda>_.
                  yield not_supported)
           else
             and_then (emit logger Info WebhookReceived
                         [get_prop webhook ''txnid'',
                          js_or (get_prop webhook ''mihpayid'') (JString ''N/A''),
                          get_prop webhook ''status'',
                          js_or (get_prop webhook ''amount'') (JString ''N/A''),
                          js_or (get_prop webhook ''mode'') (JString ''N/A'')]) (\<lambda>_.
             and_then ([], verifyResponseHash config (webhookHashParams webhook)) (\<lambda>isValid.
               if \<not> isValid
               then and_then (emit logger Warn HashVerificationFailed
                                [get_prop webhook ''txnid'']) (\<lambda>_. yield not_supported)
               else and_then (emit logger Debug HashVerified [get_prop webhook ''txnid'']) (\<lambda>_.
                      classifyWebhook logger webhook)))))"

text \<open>
  \<open>getWebhookActionAndData\<close>: the \<open>try\<close> block, and the \<open>catch\<close> that logs the error and
  answers \<open>not_supported\<close>.
\<close>

definition getWebhookActionAndData ::
  "PayuProviderConfig \<Rightarrow> runtime \<Rightarrow> logger \<Rightarrow> jsval \<Rightarrow> log \<times> WebhookActionResult" where
  "getWebhookActionAndData config rt logger payload =
     (case webhookTry config rt logger payload of
        (logged, Inl e) \<Rightarrow>
          (if logger LogError then logged @ [(LogError, ProcessingError)] else logged, not_supported)
      | (logged, Inr result) \<Rightarrow> (logged, result))"

section \<open>The notions of the specification\<close>

text \<open>
  The request string of the specification: the fields in the fixed order, joined by
  \<open>|\<close>, then five empty reserved slots, then the salt.
\<close>

definition spec_request_string :: "PayuProviderConfig \<Rightarrow> payment_hash_params \<Rightarrow> string" where
  "spec_request_string config params = join_with ''|''
     ([merchantKey config, ph_txnid params, ph_amount params, ph_productinfo params,
       ph_firstname params, ph_email params] @
      map or_empty [ph_udf1 params, ph_udf2 params, ph_udf3 params, ph_udf4 params, ph_udf5 params] @
      replicate 5 [] @ [merchantSalt config])"

text \<open>The ten field values a request hash is computed from, a missing udf as empty.\<close>

definition request_fields :: "payment_hash_params \<Rightarrow> string list" where
  "request_fields params =
     [ph_txnid params, ph_amount params, ph_productinfo params, ph_firstname params, ph_email params] @
     map or_empty [ph_udf1 params, ph_udf2 params, ph_udf3 params, ph_udf4 params, ph_udf5 params]"

definition pipe_free :: "string \<Rightarrow> bool" where
  "pipe_free s = (CHR ''|'' \<notin> set s)"

text \<open>
  The reverse string of the specification: the additional charges in front when supplied
  (and not empty), the salt, the status, five empty slots, the udf fields from 5 down to
  1, and the remaining fields in reverse order down to the key, joined by \<open>|\<close>.
  \<open>spec_response_fields\<close> are these values as strings, when each of them converts.
\<close>

definition spec_response_values :: "PayuProviderConfig \<Rightarrow> response_hash_params \<Rightarrow> jsval list" where
  "spec_response_values config params =
     (if truthy (rh_additionalCharges params) then [rh_additionalCharges params] else []) @
     [JString (merchantSalt config), rh_status params] @ replicate 5 (JString []) @
     map (\<lambda>u. js_or u (JString []))
       [rh_udf5 params, rh_udf4 params, rh_udf3 params, rh_udf2 params, rh_udf1 params] @
     [rh_email params, rh_firstname params, rh_productinfo params, rh_amount params,
      rh_txnid params, JString (merchantKey config)]"

definition spec_response_fields :: "PayuProviderConfig \<Rightarrow> response_hash_params \<Rightarrow> string list option" where
  "spec_response_fields config params = those (map toStr (spec_response_values config params))"

definition spec_response_string :: "PayuProviderConfig \<Rightarrow> response_hash_params \<Rightarrow> string option" where
  "spec_response_string config params =
     map_option (join_with ''|'') (spec_response_fields config params)"

text \<open>
  The gateway reports the transaction as succeeded: the answer has status 1 and its
  entry for the txnid has the status \<open>success\<close>.
\<close>

definition reports_success :: "PayuVerifyResponse \<Rightarrow> string \<Rightarrow> bool" where
  "reports_success response txnid =
     (vr_status response = 1 \<and>
      (case vr_transaction_details response of
         None \<Rightarrow> False
       | Some details \<Rightarrow>
           (case details txnid of None \<Rightarrow> False | Some txn \<Rightarrow> txn_status txn = ''success'')))"

text \<open>
  The candidates \<open>initiatePayment\<close> tries for each required field, in the order the code
  tries them, and the first of a list that is present and not empty.
\<close>

definition email_candidates :: "InitiatePaymentInput \<Rightarrow> string option list" where
  "email_candidates input =
     [Option.bind (Option.bind (ip_context input) ctx_customer) cu_email,
      Option.bind (ip_data input) id_email]"

definition firstname_candidates :: "InitiatePaymentInput \<Rightarrow> string option list" where
  "firstname_candidates input =
     [Option.bind (Option.bind (ip_context input) ctx_customer) cu_first_name,
      Option.bind (ip_data input) id_firstname,
      Option.bind (ip_data input) id_first_name]"

definition phone_candidates :: "InitiatePaymentInput \<Rightarrow> string option list" where
  "phone_candidates input =
     [Option.bind (Option.bind (ip_context input) ctx_customer) cu_phone,
      Option.bind (Option.bind (Option.bind (ip_context input) ctx_customer) cu_billing_address)
        addr_phone,
      Option.bind (ip_data input) id_shipping_address_phone,
      Option.bind (ip_data input) id_phone]"

fun first_present :: "string option list \<Rightarrow> string option" where
  "first_present [] = None"
| "first_present (v # vs) = (if present v then v else first_present vs)"

text \<open>
  The classes of the specification, by the lower-cased status, and the session
  correlation id: udf1 when present (and not empty), else the txnid.
\<close>

datatype spec_class =
  SpecAuthorized | SpecFailed | SpecAcknowledged | SpecManualReview | SpecUnsupported

definition spec_classify :: "string \<Rightarrow> spec_class" where
  "spec_classify status =
     (let s = toLowerCase status
      in if s = ''success'' then SpecAuthorized
         else if s = ''failure'' \<or> s = ''failed'' then SpecFailed
         else if s = ''refund'' \<or> s = ''refunded'' then SpecAcknowledged
         else if s = ''dispute'' \<or> s = ''chargeback'' then SpecManualReview
         else SpecUnsupported)"

definition sessionCorrelationId :: "jsval \<Rightarrow> jsval" where
  "sessionCorrelationId webhook =
     (if truthy (get_prop webhook ''udf1'') then get_prop webhook ''udf1''
      else get_prop webhook ''txnid'')"

text \<open>
  The payload yields the webhook, and the webhook has a txnid, a status and a hash.
\<close>

definition valid_fields :: "runtime \<Rightarrow> logger \<Rightarrow> jsval \<Rightarrow> jsval \<Rightarrow> bool" where
  "valid_fields rt logger payload webhook =
     (snd (selectWebhook rt logger payload) = Inr (Some webhook) \<and>
      truthy (get_prop webhook ''txnid'') \<and> truthy (get_prop webhook ''status'') \<and>
      truthy (get_prop webhook ''hash''))"

text \<open>Every field of the webhook that a log message prints converts to a string.\<close>

definition loggable :: "jsval \<Rightarrow> bool" where
  "loggable webhook =
     list_all (\<lambda>k. toStr (get_prop webhook k) \<noteq> None)
       [''txnid'', ''mihpayid'', ''status'', ''amount'', ''mode'', ''udf1'', ''error'',
        ''error_Message'']"

text \<open>The amount that the decimal numeral \<open>ip.fp\<close> denotes.\<close>

definition decimal_value :: "string \<Rightarrow> string \<Rightarrow> rat" where
  "decimal_value ip fp = of_int (digitsValue ip) + of_int (digitsValue fp) / 10 ^ length fp"

section \<open>Example data\<close>

definition config0 :: PayuProviderConfig where
  "config0 = \<lparr>merchantKey = ''KEY'', merchantSalt = ''SALT'', environment = Test, autoCapture = None\<rparr>"

definition request0 :: payment_hash_params where
  "request0 = \<lparr>ph_txnid = ''TXN1'', ph_amount = ''500.00'', ph_productinfo = ''Order'',
     ph_firstname = ''Jane'', ph_email = ''a@b.com'', ph_udf1 = None, ph_udf2 = None,
     ph_udf3 = None, ph_udf4 = None, ph_udf5 = None\<rparr>"

text \<open>A response whose hash is the digest of its own reverse string under \<open>config0\<close>.\<close>

definition response0 :: response_hash_params where
  "response0 = \<lparr>rh_status = JString ''success'', rh_email = JString ''a@b.com'',
     rh_firstname = JString ''Jane'', rh_productinfo = JString ''Order'',
     rh_amount = JString ''500.00'', rh_txnid = JString ''TXN1'',
     rh_hash = JString ''ba96e2ddd786cacd93a4057db0088e2afc82bb4af3e8f1438dd082b25f8938e6c61350d04ccff0e5aaef75692ece10f3760dd4bc16979321043fd5a2cdd6686b'',
     rh_udf1 = JString ''sess_abc'', rh_udf2 = JUndefined, rh_udf3 = JUndefined,
     rh_udf4 = JUndefined, rh_udf5 = JUndefined, rh_additionalCharges = JUndefined\<rparr>"

definition session0 :: PayuSessionData where
  "session0 = \<lparr>sd_txnid = ''TXN1'', sd_amount = ''500.00'', sd_productinfo = ''Order'',
     sd_firstname = ''Jane'', sd_email = ''a@b.com'', sd_phone = ''9999999999'',
     sd_hash = generatePaymentHash config0 request0, sd_paymentUrl = getPaymentUrl config0,
     sd_status = Pending, sd_countryCode = Some ''in'', sd_payuTransactionId = None,
     sd_payuResponse = None, sd_form_data = None, sd_refund = None\<rparr>"

text \<open>A gateway that cannot be reached.\<close>

definition gateway_down :: gateway where
  "gateway_down = \<lparr>verify_endpoint = (\<lambda>req. Rejected (Error ''fetch failed'')),
     refund_endpoint = (\<lambda>req. Rejected (Error ''fetch failed''))\<rparr>"

definition transaction0 :: payu_transaction where
  "transaction0 = \<lparr>txn_mihpayid = ''403993715524045752'', txn_status = ''success'',
     txn_amt = ''500.00'', txn_txnid = ''TXN1'', txn_mode = ''CC'', txn_bank_ref_num = None,
     txn_error_code = None, txn_error_Message = None\<rparr>"

text \<open>A gateway that reports \<open>TXN1\<close> as succeeded.\<close>

definition gateway_success :: gateway where
  "gateway_success =
     \<lparr>verify_endpoint = (\<lambda>req. Json \<lparr>vr_status = 1, vr_msg = ''1 out of 1 Transactions Fetched Successfully'',
          vr_transaction_details = Some [''TXN1'' \<mapsto> transaction0]\<rparr>),
      refund_endpoint = (\<lambda>req. Rejected (Error ''fetch failed''))\<rparr>"

text \<open>
  A runtime for the examples: it prints every number as the amount of the examples and
  decodes no form body.  And a logger that has every method.
\<close>

definition runtime0 :: runtime where
  "runtime0 = \<lparr>toFixed2 = (\<lambda>n. ''500.00''), URLSearchParams = (\<lambda>s. [])\<rparr>"

definition logger0 :: logger where
  "logger0 = (\<lambda>level. True)"

definition env0 :: process_env where
  "env0 = \<lparr>STOREFRONT_URL = Some ''https://shop.example'',
     PAYU_REDIRECT_URL = Some ''/order/confirmed'',
     PAYU_REDIRECT_FAILURE_URL = Some ''/checkout''\<rparr>"

text \<open>A logged-in customer, and a payload that names another email address.\<close>

definition input0 :: InitiatePaymentInput where
  "input0 = \<lparr>ip_amount = AmountString ''500'',
     ip_context = Some \<lparr>ctx_customer = Some
       \<lparr>cu_email = Some ''customer@shop.example'', cu_first_name = Some ''Jane'',
        cu_phone = Some ''9999999999'', cu_billing_address = None\<rparr>\<rparr>,
     ip_data = Some
       \<lparr>id_email = Some ''payload@shop.example'', id_firstname = None, id_first_name = None,
        id_shipping_address_phone = None, id_phone = None, id_productinfo = None,
        id_country_code = None\<rparr>\<rparr>"

text \<open>An input with no customer and no payload.\<close>

definition input_empty :: InitiatePaymentInput where
  "input_empty = \<lparr>ip_amount = AmountString ''500'', ip_context = None, ip_data = None\<rparr>"

text \<open>A payload with an email only, and one with an email and a first name only.\<close>

definition input_no_name :: InitiatePaymentInput where
  "input_no_name = \<lparr>ip_amount = AmountString ''500'', ip_context = None,
     ip_data = Some
       \<lparr>id_email = Some ''payload@shop.example'', id_firstname = None, id_first_name = None,
        id_shipping_address_phone = None, id_phone = None, id_productinfo = None,
        id_country_code = None\<rparr>\<rparr>"

definition input_no_phone :: InitiatePaymentInput where
  "input_no_phone = \<lparr>ip_amount = AmountString ''500'', ip_context = None,
     ip_data = Some
       \<lparr>id_email = Some ''payload@shop.example'', id_firstname = Some ''Jane'',
        id_first_name = None, id_shipping_address_phone = None, id_phone = Some [],
        id_productinfo = None, id_country_code = None\<rparr>\<rparr>"

text \<open>
  Webhook bodies delivered as \<open>data.data\<close>: the fields of \<open>response0\<close> without the
  amount and the hash, and the payload made of a hash, some more entries and these fields.
\<close>

definition webhook_base :: "(string \<times> jsval) list" where
  "webhook_base =
     [(''mihpayid'', JString ''403993715524045752''), (''mode'', JString ''CC''),
      (''status'', JString ''success''), (''txnid'', JString ''TXN1''),
      (''productinfo'', JString ''Order''), (''firstname'', JString ''Jane''),
      (''email'', JString ''a@b.com''), (''udf1'', JString ''sess_abc'')]"

definition webhook_of :: "jsval \<Rightarrow> (string \<times> jsval) list \<Rightarrow> jsval" where
  "webhook_of h entries = JObject ((''hash'', h) # entries @ webhook_base)"

definition payload_of :: "jsval \<Rightarrow> (string \<times> jsval) list \<Rightarrow> jsval" where
  "payload_of h entries = JObject [(''data'', webhook_of h entries)]"

text \<open>The webhook of \<open>response0\<close>, with its valid hash.\<close>

definition payload0 :: jsval where
  "payload0 = payload_of (JString
     ''ba96e2ddd786cacd93a4057db0088e2afc82bb4af3e8f1438dd082b25f8938e6c61350d04ccff0e5aaef75692ece10f3760dd4bc16979321043fd5a2cdd6686b'')
     [(''amount'', JString ''500.00'')]"

text \<open>The same body with the last character of the hash changed from \<open>b\<close> to \<open>c\<close>.\<close>

definition payload_tampered :: jsval where
  "payload_tampered = payload_of (JString
     ''ba96e2ddd786cacd93a4057db0088e2afc82bb4af3e8f1438dd082b25f8938e6c61350d04ccff0e5aaef75692ece10f3760dd4bc16979321043fd5a2cdd6686c'')
     [(''amount'', JString ''500.00'')]"

text \<open>A body whose hash is a number.\<close>

definition payload_numeric_hash :: jsval where
  "payload_numeric_hash = payload_of (JOther True ''12345'') [(''amount'', JString ''500.00'')]"

text \<open>A body without an amount, with the hash that is valid for it.\<close>

definition payload_no_amount :: jsval where
  "payload_no_amount = payload_of (JString
     ''b7a5174f208e5bf189ba0381552a31846979e9e05db4efd1a2d868f52118d375c05c0b97c81a384b6200f3f7a247dc041a0e342dc6fecb279903f6b4f7b90b0e'')
     []"

text \<open>A body with a large amount, with the hash that is valid for it.\<close>

definition payload_large_amount :: jsval where
  "payload_large_amount = payload_of (JString
     ''eee0197c834cdb076308cccbd0de48ef3907c5bf09713ede81881cd6b45854279bfa2a1d79d63a679b3fc3151f44f1f5be4475900dae41cb4aecbbb66f679c93'')
     [(''amount'', JString ''9007199254740993.01'')]"

text \<open>The body of \<open>payload0\<close> with an object in place of the gateway's transaction id.\<close>

definition payload_object_mihpayid :: jsval where
  "payload_object_mihpayid = payload_of (JString
     ''ba96e2ddd786cacd93a4057db0088e2afc82bb4af3e8f1438dd082b25f8938e6c61350d04ccff0e5aaef75692ece10f3760dd4bc16979321043fd5a2cdd6686b'')
     [(''amount'', JString ''500.00''), (''mihpayid'', JObject [(''toString'', JNull)])]"

text \<open>A body that is delivered directly and has a txnid only.\<close>

definition payload_txnid_only :: jsval where
  "payload_txnid_only = JObject [(''txnid'', JString ''TXN1'')]"

section \<open>The digest is lower-case hexadecimal\<close>

lemma hex_digit_mem: "hex_digit n \<in> set ''0123456789abcdef''"
  unfolding hex_digit_def by (rule nth_mem) simp

lemma lower_char_hex: "c \<in> set ''0123456789abcdef'' \<Longrightarrow> lower_char c = c"
  by (auto simp: lower_char_def)

lemma toLowerCase_hex_word: "toLowerCase (hex_word w) = hex_word w"
  unfolding toLowerCase_def hex_word_def
  by (simp add: lower_char_hex [OF hex_digit_mem])

lemma toLowerCase_concat: "toLowerCase (concat xss) = concat (map toLowerCase xss)"
  by (induction xss) (simp_all add: toLowerCase_def)

lemma toLowerCase_sha512_hex: "toLowerCase (sha512_hex s) = sha512_hex s"
  unfolding sha512_hex_def toLowerCase_concat
  by (simp add: toLowerCase_hex_word comp_def)

lemma toLowerCase_hex_literal:
  "list_all (\<lambda>c. c \<in> set ''0123456789abcdef'') s \<Longrightarrow> toLowerCase s = s"
  by (induction s) (auto simp: toLowerCase_def lower_char_def)

text \<open>
  The digest has 128 characters, so there are finitely many digests, and among the
  digests of infinitely many messages two coincide.
\<close>

lemma length_round512: "length (round512 s kw) = length s"
  by (induction s kw rule: round512.induct) (simp_all add: Let_def)

lemma length_foldl_round512: "length (foldl round512 hs xs) = length hs"
  by (induction xs arbitrary: hs) (simp_all add: length_round512)

lemma length_compress: "length (compress hs blk) = length hs"
  by (simp add: compress_def length_foldl_round512)

lemma length_foldl_compress: "length (foldl compress hs bs) = length hs"
  by (induction bs arbitrary: hs) (simp_all add: length_compress)

lemma length_hex_word: "length (hex_word w) = 16"
  by (simp add: hex_word_def)

lemma length_sha512_hex: "length (sha512_hex s) = 128"
  by (simp add: sha512_hex_def length_concat comp_def length_hex_word sum_list_triv
      length_foldl_compress H512_def)

lemma finite_range_sha512_hex: "finite (range sha512_hex)"
proof -
  have "range sha512_hex \<subseteq> {xs. set xs \<subseteq> UNIV \<and> length xs = 128}"
    by (auto simp: length_sha512_hex)
  moreover have "finite {xs :: string. set xs \<subseteq> UNIV \<and> length xs = 128}"
    by (rule finite_lists_length_eq) simp
  ultimately show ?thesis by (rule finite_subset)
qed

lemma sha512_hex_collision:
  assumes "inj f"
  shows "\<exists>a b :: string. a \<noteq> b \<and> sha512_hex (f a) = sha512_hex (f b)"
proof (rule ccontr)
  assume "\<not> ?thesis"
  then have "inj (\<lambda>a. sha512_hex (f a))"
    by (auto simp: inj_def)
  moreover have "finite (range (\<lambda>a. sha512_hex (f a)))"
    by (rule finite_subset [OF _ finite_range_sha512_hex]) auto
  ultimately have "finite (UNIV :: string set)"
    by (rule finite_imageD [rotated])
  then show False by (simp add: infinite_UNIV_listI)
qed

text \<open>The model of SHA-512 on three messages of one block, computed by the kernel.\<close>

lemma sha512_hex_response0:
  "sha512_hex ''SALT|success||||||||||sess_abc|a@b.com|Jane|Order|500.00|TXN1|KEY'' =
   ''ba96e2ddd786cacd93a4057db0088e2afc82bb4af3e8f1438dd082b25f8938e6c61350d04ccff0e5aaef75692ece10f3760dd4bc16979321043fd5a2cdd6686b''"
  by code_simp

lemma sha512_hex_no_amount:
  "sha512_hex ''SALT|success||||||||||sess_abc|a@b.com|Jane|Order|undefined|TXN1|KEY'' =
   ''b7a5174f208e5bf189ba0381552a31846979e9e05db4efd1a2d868f52118d375c05c0b97c81a384b6200f3f7a247dc041a0e342dc6fecb279903f6b4f7b90b0e''"
  by code_simp

lemma sha512_hex_large_amount:
  "sha512_hex ''SALT|success||||||||||sess_abc|a@b.com|Jane|Order|9007199254740993.01|TXN1|KEY'' =
   ''eee0197c834cdb076308cccbd0de48ef3907c5bf09713ede81881cd6b45854279bfa2a1d79d63a679b3fc3151f44f1f5be4475900dae41cb4aecbbb66f679c93''"
  by code_simp

lemma sha512_hex_tampered_amount:
  "sha512_hex ''SALT|success||||||||||sess_abc|a@b.com|Jane|Order|900.00|TXN1|KEY'' =
   ''1a8a1779d4e4badc7f30d27710791b1cd15c8b7f2a7ad6768399518338487f4ba6234e46387faae19ba536fc09770104ec8d2c97025cab400f7f4605627453aa''"
  by code_simp

section \<open>Request signing\<close>

lemma paymentHashString_spec: "paymentHashString config params = spec_request_string config params"
  by (simp add: paymentHashString_def spec_request_string_def eval_nat_numeral)

lemma pipe_split:
  "pipe_free a \<Longrightarrow> pipe_free b \<Longrightarrow> a @ CHR ''|'' # r = b @ CHR ''|'' # r' \<Longrightarrow> a = b \<and> r = r'"
proof (induction a arbitrary: b)
  case Nil
  then show ?case by (cases b) (auto simp: pipe_free_def)
next
  case (Cons x xs)
  then show ?case by (cases b) (auto simp: pipe_free_def)
qed

lemma pipe_terminated_inj:
  "length xs = length ys \<Longrightarrow> list_all pipe_free xs \<Longrightarrow> list_all pipe_free ys \<Longrightarrow>
   concat (map (\<lambda>f. f @ ''|'') xs) @ r = concat (map (\<lambda>f. f @ ''|'') ys) @ r' \<Longrightarrow>
   xs = ys \<and> r = r'"
proof (induction xs ys rule: list_induct2)
  case Nil
  then show ?case by simp
next
  case (Cons x xs y ys)
  from Cons.prems have px: "pipe_free x" and py: "pipe_free y"
    and pxs: "list_all pipe_free xs" and pys: "list_all pipe_free ys" by simp_all
  from Cons.prems(3) have
    "x @ CHR ''|'' # (concat (map (\<lambda>f. f @ ''|'') xs) @ r) =
     y @ CHR ''|'' # (concat (map (\<lambda>f. f @ ''|'') ys) @ r')" by simp
  from pipe_split [OF px py this] Cons.IH [OF pxs pys] show ?case by simp
qed

lemma paymentHashString_fields:
  "paymentHashString config p =
   merchantKey config @ ''|'' @ concat (map (\<lambda>f. f @ ''|'') (request_fields p)) @
   ''|||||'' @ merchantSalt config"
  by (simp add: paymentHashString_def request_fields_def)

lemma length_request_fields: "length (request_fields p) = 10"
  by (simp add: request_fields_def)

lemma paymentHashString_inj:
  assumes "list_all pipe_free (request_fields p)" "list_all pipe_free (request_fields p')"
    and "paymentHashString config p = paymentHashString config p'"
  shows "request_fields p = request_fields p'"
proof -
  have len: "length (request_fields p) = length (request_fields p')"
    by (simp add: length_request_fields)
  from assms(3) have
    "concat (map (\<lambda>f. f @ ''|'') (request_fields p)) @ (''|||||'' @ merchantSalt config) =
     concat (map (\<lambda>f. f @ ''|'') (request_fields p')) @ (''|||||'' @ merchantSalt config)"
    unfolding paymentHashString_fields by simp
  from pipe_terminated_inj [OF len assms(1) assms(2) this] show ?thesis by simp
qed

text \<open>
  Claim C2, as the code has it.  \<open>generatePaymentHash\<close> returns the lower-case hexadecimal
  SHA-512 digest of \<open>key|txnid|amount|productinfo|firstname|email|udf1|...|udf5||||||salt\<close>,
  a missing udf standing for the empty string; being a function of its inputs it is
  deterministic.  When no field value contains the separator \<open>|\<close>, two requests with
  different field values are hashed from different strings.  (With a \<open>|\<close> inside a value
  the strings can coincide, see the counterexample; from different strings the digests
  differ unless SHA-512 collides.)
\<close>

theorem generatePaymentHash_formula:
  "generatePaymentHash config params = sha512_hex (spec_request_string config params) \<and>
   (list_all pipe_free (request_fields params) \<and> list_all pipe_free (request_fields params') \<and>
    request_fields params \<noteq> request_fields params' \<longrightarrow>
    paymentHashString config params \<noteq> paymentHashString config params')"
proof
  show "generatePaymentHash config params = sha512_hex (spec_request_string config params)"
    by (simp add: generatePaymentHash_def toLowerCase_sha512_hex paymentHashString_spec)
  show "list_all pipe_free (request_fields params) \<and> list_all pipe_free (request_fields params') \<and>
    request_fields params \<noteq> request_fields params' \<longrightarrow>
    paymentHashString config params \<noteq> paymentHashString config params'"
    using paymentHashString_inj [of params params' config] by blast
qed

theorem generatePaymentHash_formula_witness:
  "list_all pipe_free (request_fields request0) \<and>
   list_all pipe_free (request_fields (request0\<lparr>ph_udf2 := Some ''x''\<rparr>)) \<and>
   request_fields request0 \<noteq> request_fields (request0\<lparr>ph_udf2 := Some ''x''\<rparr>) \<and>
   generatePaymentHash config0 request0 = sha512_hex (spec_request_string config0 request0) \<and>
   paymentHashString config0 request0 \<noteq> paymentHashString config0 (request0\<lparr>ph_udf2 := Some ''x''\<rparr>)"
proof -
  have a: "list_all pipe_free (request_fields request0)"
    by (simp add: request_fields_def request0_def pipe_free_def or_empty_def)
  have b: "list_all pipe_free (request_fields (request0\<lparr>ph_udf2 := Some ''x''\<rparr>))"
    by (simp add: request_fields_def request0_def pipe_free_def or_empty_def)
  have c: "request_fields request0 \<noteq> request_fields (request0\<lparr>ph_udf2 := Some ''x''\<rparr>)"
    by (simp add: request_fields_def request0_def or_empty_def)
  from generatePaymentHash_formula [of config0 request0 "request0\<lparr>ph_udf2 := Some ''x''\<rparr>"] a b c
  show ?thesis by blast
qed

text \<open>
  Claim C2 as stated fails: moving the value \<open>|\<close> from the udf1 slot to the udf2 slot
  changes the request and leaves the digest as it was.
\<close>

theorem generatePaymentHash_udf_slot_counterexample:
  "request0\<lparr>ph_udf1 := Some ''|''\<rparr> \<noteq> request0\<lparr>ph_udf2 := Some ''|''\<rparr> \<and>
   generatePaymentHash config0 (request0\<lparr>ph_udf1 := Some ''|''\<rparr>) =
   generatePaymentHash config0 (request0\<lparr>ph_udf2 := Some ''|''\<rparr>)"
  by (simp add: generatePaymentHash_def paymentHashString_def request0_def or_empty_def)

section \<open>Response verification\<close>

lemma responseHashString_spec:
  "responseHashString config params = spec_response_string config params"
  by (simp add: responseHashString_def spec_response_string_def spec_response_fields_def
      spec_response_values_def Let_def eval_nat_numeral split: option.splits)

lemma verifyResponseHash_string:
  assumes "rh_hash params = JString h" and "responseHashString config params = Some s"
  shows "verifyResponseHash config params = Inr (sha512_hex s = toLowerCase h)"
  using assms by (simp add: verifyResponseHash_def toLowerCase_sha512_hex)

text \<open>Altering one of the joined strings alters the joined string.\<close>

lemma join_with_update_neq:
  "i < length xs \<Longrightarrow> v \<noteq> xs ! i \<Longrightarrow> join_with sep (xs[i := v]) \<noteq> join_with sep xs"
proof (induction xs arbitrary: i)
  case Nil
  then show ?case by simp
next
  case (Cons x xs)
  show ?case
  proof (cases xs)
    case Nil
    with Cons.prems show ?thesis by simp
  next
    case (Cons y ys)
    show ?thesis
    proof (cases i)
      case 0
      with Cons.prems Cons show ?thesis by simp
    next
      case (Suc j)
      with Cons.prems have "j < length xs" and "v \<noteq> xs ! j" by simp_all
      from Cons.IH [OF this] Cons Suc show ?thesis
        by (cases "xs[j := v]") simp_all
    qed
  qed
qed

lemma responseHashString_response0:
  "responseHashString config0 (response0\<lparr>rh_hash := h\<rparr>) =
   Some ''SALT|success||||||||||sess_abc|a@b.com|Jane|Order|500.00|TXN1|KEY''"
  by (simp add: responseHashString_def config0_def response0_def js_or_def)

lemma verifyResponseHash_response0:
  "verifyResponseHash config0 (response0\<lparr>rh_hash := JString h\<rparr>) =
   Inr (''ba96e2ddd786cacd93a4057db0088e2afc82bb4af3e8f1438dd082b25f8938e6c61350d04ccff0e5aaef75692ece10f3760dd4bc16979321043fd5a2cdd6686b'' = toLowerCase h)"
  using verifyResponseHash_string [OF _ responseHashString_response0, of "JString h" h]
  by (simp add: sha512_hex_response0)

lemma response0_hash:
  "response0\<lparr>rh_hash := JString ''ba96e2ddd786cacd93a4057db0088e2afc82bb4af3e8f1438dd082b25f8938e6c61350d04ccff0e5aaef75692ece10f3760dd4bc16979321043fd5a2cdd6686b''\<rparr> = response0"
  by (simp add: response0_def)

lemma verifyResponseHash_response0_True: "verifyResponseHash config0 response0 = Inr True"
proof -
  have "toLowerCase ''ba96e2ddd786cacd93a4057db0088e2afc82bb4af3e8f1438dd082b25f8938e6c61350d04ccff0e5aaef75692ece10f3760dd4bc16979321043fd5a2cdd6686b'' = ''ba96e2ddd786cacd93a4057db0088e2afc82bb4af3e8f1438dd082b25f8938e6c61350d04ccff0e5aaef75692ece10f3760dd4bc16979321043fd5a2cdd6686b''"
    by (rule toLowerCase_hex_literal) simp
  with verifyResponseHash_response0 [of "''ba96e2ddd786cacd93a4057db0088e2afc82bb4af3e8f1438dd082b25f8938e6c61350d04ccff0e5aaef75692ece10f3760dd4bc16979321043fd5a2cdd6686b''"]
  show ?thesis by (simp only: response0_hash simp_thms)
qed

text \<open>
  Claim C1, as the code has it.  When the claimed digest is a string and every field
  converts to a string, \<open>verifyResponseHash\<close> does not throw, and it returns true exactly
  when the lower-cased claimed digest is the SHA-512 hexadecimal digest of the reverse
  string
  \<open>[additionalCharges|]salt|status||||||udf5|udf4|udf3|udf2|udf1|email|firstname|productinfo|amount|txnid|key\<close>
  (the prefix present when additionalCharges is supplied and not empty).  After a response
  was accepted, a claimed digest altered to a string that differs in more than the case of
  its letters is rejected, and a response with one altered field is hashed from another
  string: it is rejected unless that string has the same SHA-512 digest.  (A claimed digest
  that is not a string, or a field that cannot be converted, makes the function throw; two
  strings with the same digest exist, see the counterexample.)
\<close>

theorem verifyResponseHash_correct:
  "(rh_hash params = JString h \<and> spec_response_string config params = Some s \<longrightarrow>
      verifyResponseHash config params = Inr (sha512_hex s = toLowerCase h)) \<and>
   (rh_hash params = JString h \<and> verifyResponseHash config params = Inr True \<and>
    toLowerCase h' \<noteq> toLowerCase h \<longrightarrow>
      verifyResponseHash config (params\<lparr>rh_hash := JString h'\<rparr>) = Inr False) \<and>
   (rh_hash params = JString h \<and> rh_hash params' = JString h \<and>
    verifyResponseHash config params = Inr True \<and>
    spec_response_fields config params = Some xs \<and> i < length xs \<and> v \<noteq> xs ! i \<and>
    spec_response_fields config params' = Some (xs[i := v]) \<longrightarrow>
      join_with ''|'' (xs[i := v]) \<noteq> join_with ''|'' xs \<and>
      verifyResponseHash config params' =
        Inr (sha512_hex (join_with ''|'' (xs[i := v])) = sha512_hex (join_with ''|'' xs)))"
proof (intro conjI impI)
  assume "rh_hash params = JString h \<and> spec_response_string config params = Some s"
  then show "verifyResponseHash config params = Inr (sha512_hex s = toLowerCase h)"
    by (simp add: verifyResponseHash_string responseHashString_spec)
next
  assume a: "rh_hash params = JString h \<and> verifyResponseHash config params = Inr True \<and>
    toLowerCase h' \<noteq> toLowerCase h"
  then obtain s where s: "responseHashString config params = Some s"
    by (cases "responseHashString config params") (auto simp: verifyResponseHash_def)
  with a have "sha512_hex s = toLowerCase h"
    using verifyResponseHash_string [of params h config s] by simp
  moreover have "responseHashString config (params\<lparr>rh_hash := JString h'\<rparr>) =
      responseHashString config params"
    by (simp add: responseHashString_def Let_def cong: if_cong)
  with s have "responseHashString config (params\<lparr>rh_hash := JString h'\<rparr>) = Some s"
    by simp
  then have "verifyResponseHash config (params\<lparr>rh_hash := JString h'\<rparr>) =
      Inr (sha512_hex s = toLowerCase h')"
    by (intro verifyResponseHash_string) simp_all
  ultimately show "verifyResponseHash config (params\<lparr>rh_hash := JString h'\<rparr>) = Inr False"
    using a by auto
next
  assume a: "rh_hash params = JString h \<and> rh_hash params' = JString h \<and>
    verifyResponseHash config params = Inr True \<and>
    spec_response_fields config params = Some xs \<and> i < length xs \<and> v \<noteq> xs ! i \<and>
    spec_response_fields config params' = Some (xs[i := v])"
  then show "join_with ''|'' (xs[i := v]) \<noteq> join_with ''|'' xs"
    by (simp add: join_with_update_neq)
next
  assume a: "rh_hash params = JString h \<and> rh_hash params' = JString h \<and>
    verifyResponseHash config params = Inr True \<and>
    spec_response_fields config params = Some xs \<and> i < length xs \<and> v \<noteq> xs ! i \<and>
    spec_response_fields config params' = Some (xs[i := v])"
  then have s: "responseHashString config params = Some (join_with ''|'' xs)"
    and s': "responseHashString config params' = Some (join_with ''|'' (xs[i := v]))"
    by (simp_all add: responseHashString_spec spec_response_string_def)
  from a s have "sha512_hex (join_with ''|'' xs) = toLowerCase h"
    using verifyResponseHash_string [of params h config] by simp
  moreover from a s' have "verifyResponseHash config params' =
      Inr (sha512_hex (join_with ''|'' (xs[i := v])) = toLowerCase h)"
    using verifyResponseHash_string [of params' h config] by simp
  ultimately show "verifyResponseHash config params' =
      Inr (sha512_hex (join_with ''|'' (xs[i := v])) = sha512_hex (join_with ''|'' xs))"
    by simp
qed

lemma response0_fields:
  "spec_response_fields config0 (response0\<lparr>rh_amount := JString a\<rparr>) =
   Some [''SALT'', ''success'', [], [], [], [], [], [], [], [], [], ''sess_abc'', ''a@b.com'',
         ''Jane'', ''Order'', a, ''TXN1'', ''KEY'']"
  by (simp add: spec_response_fields_def spec_response_values_def config0_def response0_def
      js_or_def eval_nat_numeral)

lemma response0_amount: "response0\<lparr>rh_amount := JString ''500.00''\<rparr> = response0"
  by (simp add: response0_def)

theorem verifyResponseHash_correct_witness:
  "rh_hash response0 = JString ''ba96e2ddd786cacd93a4057db0088e2afc82bb4af3e8f1438dd082b25f8938e6c61350d04ccff0e5aaef75692ece10f3760dd4bc16979321043fd5a2cdd6686b'' \<and>
   spec_response_string config0 response0 =
     Some ''SALT|success||||||||||sess_abc|a@b.com|Jane|Order|500.00|TXN1|KEY'' \<and>
   verifyResponseHash config0 response0 = Inr True \<and>
   verifyResponseHash config0 (response0\<lparr>rh_hash := JString
     ''ba96e2ddd786cacd93a4057db0088e2afc82bb4af3e8f1438dd082b25f8938e6c61350d04ccff0e5aaef75692ece10f3760dd4bc16979321043fd5a2cdd6686c''\<rparr>) =
     Inr False \<and>
   verifyResponseHash config0 (response0\<lparr>rh_amount := JString ''900.00''\<rparr>) = Inr False"
proof -
  let ?d = "''ba96e2ddd786cacd93a4057db0088e2afc82bb4af3e8f1438dd082b25f8938e6c61350d04ccff0e5aaef75692ece10f3760dd4bc16979321043fd5a2cdd6686b''"
  let ?t = "''ba96e2ddd786cacd93a4057db0088e2afc82bb4af3e8f1438dd082b25f8938e6c61350d04ccff0e5aaef75692ece10f3760dd4bc16979321043fd5a2cdd6686c''"
  let ?xs = "[''SALT'', ''success'', [], [], [], [], [], [], [], [], [], ''sess_abc'', ''a@b.com'',
         ''Jane'', ''Order'', ''500.00'', ''TXN1'', ''KEY'']"
  let ?s = "''SALT|success||||||||||sess_abc|a@b.com|Jane|Order|500.00|TXN1|KEY''"
  note c = verifyResponseHash_correct
    [of response0 ?d config0 ?s ?t "response0\<lparr>rh_amount := JString ''900.00''\<rparr>" ?xs 15 "''900.00''"]
  have h: "rh_hash response0 = JString ?d" by (simp add: response0_def)
  have h': "rh_hash (response0\<lparr>rh_amount := JString ''900.00''\<rparr>) = JString ?d"
    by (simp add: response0_def)
  have l: "toLowerCase ?d = ?d" and "toLowerCase ?t = ?t"
    by (rule toLowerCase_hex_literal, simp)+
  then have ne: "toLowerCase ?t \<noteq> toLowerCase ?d" by simp
  have f: "spec_response_fields config0 response0 = Some ?xs"
    using response0_fields [of "''500.00''"] by (simp only: response0_amount)
  have f': "spec_response_fields config0 (response0\<lparr>rh_amount := JString ''900.00''\<rparr>) =
      Some (?xs[15 := ''900.00''])"
    using response0_fields [of "''900.00''"] by simp
  from f have s: "spec_response_string config0 response0 = Some ?s"
    by (simp add: spec_response_string_def)
  from c h s have "verifyResponseHash config0 response0 = Inr (sha512_hex ?s = toLowerCase ?d)"
    by blast
  then have ok: "verifyResponseHash config0 response0 = Inr True"
    by (simp only: sha512_hex_response0 l simp_thms)
  from c h ok ne have b: "verifyResponseHash config0 (response0\<lparr>rh_hash := JString ?t\<rparr>) = Inr False"
    by blast
  from c h h' ok f f'
  have "verifyResponseHash config0 (response0\<lparr>rh_amount := JString ''900.00''\<rparr>) =
      Inr (sha512_hex (join_with ''|'' (?xs[15 := ''900.00''])) = sha512_hex (join_with ''|'' ?xs))"
    by simp
  then have "verifyResponseHash config0 (response0\<lparr>rh_amount := JString ''900.00''\<rparr>) =
      Inr False"
    by (simp add: sha512_hex_response0 sha512_hex_tampered_amount)
  with h s ok b show ?thesis by blast
qed

text \<open>
  Claim C1 as stated fails.  With the claimed digest altered to a number, and with a field
  altered to an object that has an own \<open>toString\<close> property, the function throws instead of
  returning false.
\<close>

theorem verifyResponseHash_counterexample:
  "verifyResponseHash config0 response0 = Inr True \<and>
   verifyResponseHash config0 (response0\<lparr>rh_hash := JOther True ''12345''\<rparr>) =
     Inl (TypeError ''params.hash.toLowerCase is not a function'') \<and>
   verifyResponseHash config0 (response0\<lparr>rh_email := JObject [(''toString'', JNull)]\<rparr>) =
     Inl (TypeError ''Cannot convert object to primitive value'')"
proof (intro conjI)
  show "verifyResponseHash config0 response0 = Inr True"
    by (rule verifyResponseHash_response0_True)
  show "verifyResponseHash config0 (response0\<lparr>rh_hash := JOther True ''12345''\<rparr>) =
     Inl (TypeError ''params.hash.toLowerCase is not a function'')"
    by (simp add: verifyResponseHash_def responseHashString_response0 not_a_function_def)
  show "verifyResponseHash config0 (response0\<lparr>rh_email := JObject [(''toString'', JNull)]\<rparr>) =
     Inl (TypeError ''Cannot convert object to primitive value'')"
    by (simp add: verifyResponseHash_def responseHashString_def config0_def response0_def
        js_or_def cannot_convert_def)
qed

text \<open>
  Nor is every altered field rejected: the digest has 128 characters, so there are two
  statuses such that the digest accepted for a response with the one is accepted for the
  same response with the other.
\<close>

lemma inj_status_string:
  "inj (\<lambda>a. ''SALT|'' @ a @ ''||||||||||sess_abc|a@b.com|Jane|Order|500.00|TXN1|KEY'')"
  by (simp add: inj_def)

lemma responseHashString_status:
  "responseHashString config0 (response0\<lparr>rh_status := JString a, rh_hash := h\<rparr>) =
   Some (''SALT|'' @ a @ ''||||||||||sess_abc|a@b.com|Jane|Order|500.00|TXN1|KEY'')"
  by (simp add: responseHashString_def config0_def response0_def js_or_def)

lemma response_digest_collision:
  "\<exists>a b d. a \<noteq> b \<and>
      verifyResponseHash config0 (response0\<lparr>rh_status := JString a, rh_hash := JString d\<rparr>) =
        Inr True \<and>
      verifyResponseHash config0 (response0\<lparr>rh_status := JString b, rh_hash := JString d\<rparr>) =
        Inr True"
proof -
  let ?f = "\<lambda>a. ''SALT|'' @ a @ ''||||||||||sess_abc|a@b.com|Jane|Order|500.00|TXN1|KEY''"
  from sha512_hex_collision [OF inj_status_string] obtain a b
    where ab: "a \<noteq> b" and c: "sha512_hex (?f a) = sha512_hex (?f b)" by blast
  let ?d = "sha512_hex (?f a)"
  have "verifyResponseHash config0 (response0\<lparr>rh_status := JString a, rh_hash := JString ?d\<rparr>) =
      Inr (sha512_hex (?f a) = toLowerCase ?d)"
    by (rule verifyResponseHash_string [OF _ responseHashString_status]) simp
  moreover have
    "verifyResponseHash config0 (response0\<lparr>rh_status := JString b, rh_hash := JString ?d\<rparr>) =
      Inr (sha512_hex (?f b) = toLowerCase ?d)"
    by (rule verifyResponseHash_string [OF _ responseHashString_status]) simp
  moreover have "toLowerCase ?d = sha512_hex (?f a)" "toLowerCase ?d = sha512_hex (?f b)"
    by (simp_all only: toLowerCase_sha512_hex c)
  ultimately have
    "verifyResponseHash config0 (response0\<lparr>rh_status := JString a, rh_hash := JString ?d\<rparr>) =
      Inr True"
    "verifyResponseHash config0 (response0\<lparr>rh_status := JString b, rh_hash := JString ?d\<rparr>) =
      Inr True"
    by (simp_all only: simp_thms)
  then show "\<exists>a b d. a \<noteq> b \<and>
      verifyResponseHash config0 (response0\<lparr>rh_status := JString a, rh_hash := JString d\<rparr>) =
        Inr True \<and>
      verifyResponseHash config0 (response0\<lparr>rh_status := JString b, rh_hash := JString d\<rparr>) =
        Inr True"
    using ab by blast
qed

section \<open>Authorization\<close>

text \<open>
  Claim C4.  For a session whose status is already \<open>authorized\<close> or \<open>captured\<close>,
  \<open>authorizePayment\<close> returns the status AUTHORIZED with the session data unchanged and
  sends no request to the gateway; called again on the data it returned, whatever the
  gateway would answer, it returns the same, again without a request.
\<close>

theorem authorizePayment_idempotent:
  assumes "sd_status sessionData = Authorized \<or> sd_status sessionData = Captured"
  shows "authorizePayment config gw (Some sessionData) =
           (Inr \<lparr>ao_status = AUTHORIZED, ao_data = sessionData\<rparr>, []) \<and>
         authorizePayment config gw' (Some (ao_data \<lparr>ao_status = AUTHORIZED, ao_data = sessionData\<rparr>)) =
           (Inr \<lparr>ao_status = AUTHORIZED, ao_data = sessionData\<rparr>, [])"
  using assms by (auto simp: authorizePayment_def)

theorem authorizePayment_idempotent_witness:
  "(sd_status (session0\<lparr>sd_status := Authorized\<rparr>) = Authorized \<or>
    sd_status (session0\<lparr>sd_status := Authorized\<rparr>) = Captured) \<and>
   authorizePayment config0 gateway_down (Some (session0\<lparr>sd_status := Authorized\<rparr>)) =
     (Inr \<lparr>ao_status = AUTHORIZED, ao_data = session0\<lparr>sd_status := Authorized\<rparr>\<rparr>, [])"
  using authorizePayment_idempotent [of "session0\<lparr>sd_status := Authorized\<rparr>" config0 gateway_down gateway_down]
  by simp

text \<open>
  Claim C5, as the code has it.  For a session that is not yet authorized or captured,
  \<open>authorizePayment\<close> sends one status request.  When the gateway answers, the returned
  session is \<open>authorized\<close> (status AUTHORIZED) if the answer reports the transaction as
  succeeded, and otherwise it is the session with status \<open>failed\<close> and nothing else
  changed (status ERROR).  When the request is rejected or times out, or an answer with
  status 1 has no transaction details, the error is thrown and no session is returned.
\<close>

theorem authorizePayment_resolves:
  assumes "sd_status sessionData \<noteq> Authorized" and "sd_status sessionData \<noteq> Captured"
  shows "(case verify_endpoint gw (verifyPaymentRequest config (sd_txnid sessionData)) of
            Json response \<Rightarrow>
              if vr_status response = 1 \<and> vr_transaction_details response = None
              then authorizePayment config gw (Some sessionData) =
                     (Inl (TypeError (''Cannot read properties of undefined (reading '' @ quoted (sd_txnid sessionData) @ '')'')),
                      [verifyPaymentRequest config (sd_txnid sessionData)])
              else (\<exists>out. authorizePayment config gw (Some sessionData) =
                       (Inr out, [verifyPaymentRequest config (sd_txnid sessionData)]) \<and>
                     (if reports_success response (sd_txnid sessionData)
                      then ao_status out = AUTHORIZED \<and> sd_status (ao_data out) = Authorized
                      else ao_status out = ERROR \<and> ao_data out = sessionData\<lparr>sd_status := Failed\<rparr>))
          | Rejected e \<Rightarrow>
              authorizePayment config gw (Some sessionData) =
                (Inl e, [verifyPaymentRequest config (sd_txnid sessionData)])
          | Aborted \<Rightarrow>
              authorizePayment config gw (Some sessionData) =
                (Inl (Error (''PayU API request timed out after '' @ API_TIMEOUT_MS @ ''ms'')),
                 [verifyPaymentRequest config (sd_txnid sessionData)]))"
proof (cases "verify_endpoint gw (verifyPaymentRequest config (sd_txnid sessionData))")
  case Aborted
  with assms show ?thesis
    by (simp add: authorizePayment_def verifyPayment_def fetchWithTimeout_def)
next
  case (Rejected e)
  with assms show ?thesis
    by (simp add: authorizePayment_def verifyPayment_def fetchWithTimeout_def)
next
  case (Json response)
  show ?thesis
  proof (cases "reports_success response (sd_txnid sessionData)")
    case True
    with assms Json show ?thesis
      by (auto simp: authorizePayment_def verifyPayment_def fetchWithTimeout_def
          reports_success_def cannot_read_def split: option.splits)
  next
    case False
    with assms Json show ?thesis
      by (auto simp: authorizePayment_def verifyPayment_def fetchWithTimeout_def
          reports_success_def cannot_read_def split: option.splits)
  qed
qed

theorem authorizePayment_resolves_witness:
  "sd_status session0 \<noteq> Authorized \<and> sd_status session0 \<noteq> Captured \<and>
   (\<exists>out. authorizePayment config0 gateway_success (Some session0) =
           (Inr out, [verifyPaymentRequest config0 ''TXN1'']) \<and>
          ao_status out = AUTHORIZED \<and> sd_status (ao_data out) = Authorized)"
proof -
  have a: "sd_status session0 \<noteq> Authorized" and b: "sd_status session0 \<noteq> Captured"
    by (simp_all add: session0_def)
  have c: "sd_txnid session0 = ''TXN1''" by (simp add: session0_def)
  from authorizePayment_resolves [OF a b, where gw = gateway_success and config = config0] a b show ?thesis
    by (simp add: c gateway_success_def reports_success_def transaction0_def)
qed

text \<open>
  Claim C5 as stated fails on a network error: the pending session is not returned as
  \<open>failed\<close>, the error of the request is thrown instead.
\<close>

theorem authorizePayment_network_error_counterexample:
  "sd_status session0 = Pending \<and>
   authorizePayment config0 gateway_down (Some session0) =
     (Inl (Error ''fetch failed''), [verifyPaymentRequest config0 ''TXN1''])"
  by (simp add: authorizePayment_def verifyPayment_def fetchWithTimeout_def gateway_down_def
      session0_def)

section \<open>Refund\<close>

text \<open>
  Claim C7.  For a session whose stored data has no gateway transaction id
  (\<open>payuTransactionId\<close> missing or empty), \<open>refundPayment\<close> throws an error that
  names the missing id, sends no request to the gateway and returns no changed session.
\<close>

theorem refundPayment_requires_transaction_id:
  assumes "\<not> present (sd_payuTransactionId sessionData)"
  shows "refundPayment config rt gw now (Some sessionData) amt =
           (Inl (MedusaError UNEXPECTED_STATE NO_TRANSACTION_ID), [])"
  using assms by (simp add: refundPayment_def)

theorem refundPayment_requires_transaction_id_witness:
  "\<not> present (sd_payuTransactionId session0) \<and>
   refundPayment config0 runtime0 gateway_success ''1700000000000'' (Some session0)
     (AmountString ''500'') =
     (Inl (MedusaError UNEXPECTED_STATE NO_TRANSACTION_ID), [])"
proof -
  have a: "\<not> present (sd_payuTransactionId session0)"
    by (simp add: session0_def present_def)
  from refundPayment_requires_transaction_id [OF a] a show ?thesis by simp
qed

section \<open>Initiation\<close>

lemma present_Some_or_empty: "present v \<Longrightarrow> Some (or_empty v) = v"
  by (cases v) (simp_all add: present_def or_empty_def)

lemma first_present_opt_or2: "present (opt_or a b) \<Longrightarrow> first_present [a, b] = opt_or a b"
  by (auto simp: opt_or_def split: if_splits)

lemma first_present_opt_or3:
  "present (opt_or (opt_or a b) c) \<Longrightarrow> first_present [a, b, c] = opt_or (opt_or a b) c"
  by (auto simp: opt_or_def split: if_splits)

lemma first_present_opt_or4:
  "present (opt_or (opt_or (opt_or a b) c) d) \<Longrightarrow>
   first_present [a, b, c, d] = opt_or (opt_or (opt_or a b) c) d"
  by (auto simp: opt_or_def split: if_splits)

lemma first_present_None2: "first_present [a, b] = None \<longleftrightarrow> \<not> present (opt_or a b)"
  by (auto simp: opt_or_def present_def split: if_splits option.splits)

lemma first_present_None3:
  "first_present [a, b, c] = None \<longleftrightarrow> \<not> present (opt_or (opt_or a b) c)"
  by (auto simp: opt_or_def present_def split: if_splits option.splits)

lemma first_present_None4:
  "first_present [a, b, c, d] = None \<longleftrightarrow> \<not> present (opt_or (opt_or (opt_or a b) c) d)"
  by (auto simp: opt_or_def present_def split: if_splits option.splits)

lemma initiatePayment_email_unresolved:
  assumes "first_present (email_candidates input) = None"
  shows "initiatePayment config rt env now random input = (Inl (Error EMAIL_REQUIRED), [])"
proof -
  from assms have
    "\<not> present (opt_or (Option.bind (Option.bind (ip_context input) ctx_customer) cu_email)
                       (Option.bind (ip_data input) id_email))"
    unfolding email_candidates_def first_present_None2 .
  then show ?thesis
    unfolding initiatePayment_def Let_def by (simp del: bind_assoc)
qed

lemma initiatePayment_firstname_unresolved:
  assumes "first_present (email_candidates input) \<noteq> None"
    and "first_present (firstname_candidates input) = None"
  shows "initiatePayment config rt env now random input = (Inl (Error NAME_REQUIRED), [])"
proof -
  from assms have
    "present (opt_or (Option.bind (Option.bind (ip_context input) ctx_customer) cu_email)
                       (Option.bind (ip_data input) id_email))"
    "\<not> present (opt_or (opt_or (Option.bind (Option.bind (ip_context input) ctx_customer) cu_first_name)
                               (Option.bind (ip_data input) id_firstname))
                       (Option.bind (ip_data input) id_first_name))"
    unfolding email_candidates_def firstname_candidates_def
      first_present_None2 first_present_None3 by simp_all
  then show ?thesis
    unfolding initiatePayment_def Let_def by (simp del: bind_assoc)
qed

lemma initiatePayment_phone_unresolved:
  assumes "first_present (email_candidates input) \<noteq> None"
    and "first_present (firstname_candidates input) \<noteq> None"
    and "first_present (phone_candidates input) = None"
  shows "initiatePayment config rt env now random input = (Inl (Error PHONE_REQUIRED), [])"
proof -
  from assms have
    "present (opt_or (Option.bind (Option.bind (ip_context input) ctx_customer) cu_email)
                       (Option.bind (ip_data input) id_email))"
    "present (opt_or (opt_or (Option.bind (Option.bind (ip_context input) ctx_customer) cu_first_name)
                               (Option.bind (ip_data input) id_firstname))
                       (Option.bind (ip_data input) id_first_name))"
    "\<not> present (opt_or (opt_or (opt_or (Option.bind (Option.bind (ip_context input) ctx_customer) cu_phone)
        (Option.bind (Option.bind (Option.bind (ip_context input) ctx_customer) cu_billing_address) addr_phone))
        (Option.bind (ip_data input) id_shipping_address_phone))
        (Option.bind (ip_data input) id_phone))"
    unfolding email_candidates_def firstname_candidates_def phone_candidates_def
      first_present_None2 first_present_None3 first_present_None4 by simp_all
  then show ?thesis
    unfolding initiatePayment_def Let_def by (simp del: bind_assoc)
qed

lemma initiatePayment_resolved:
  assumes "initiatePayment config rt env now random input = (Inr out, reqs)"
  shows "reqs = [] \<and>
         first_present (email_candidates input) = Some (sd_email (io_data out)) \<and>
         first_present (firstname_candidates input) = Some (sd_firstname (io_data out)) \<and>
         first_present (phone_candidates input) = Some (sd_phone (io_data out))"
proof -
  let ?e = "opt_or (Option.bind (Option.bind (ip_context input) ctx_customer) cu_email)
                       (Option.bind (ip_data input) id_email)"
  let ?f = "opt_or (opt_or (Option.bind (Option.bind (ip_context input) ctx_customer) cu_first_name)
                               (Option.bind (ip_data input) id_firstname))
                       (Option.bind (ip_data input) id_first_name)"
  let ?p = "opt_or (opt_or (opt_or (Option.bind (Option.bind (ip_context input) ctx_customer) cu_phone)
        (Option.bind (Option.bind (Option.bind (ip_context input) ctx_customer) cu_billing_address) addr_phone))
        (Option.bind (ip_data input) id_shipping_address_phone))
        (Option.bind (ip_data input) id_phone)"
  from assms have pe: "present ?e" and pf: "present ?f" and pp: "present ?p"
    unfolding initiatePayment_def Let_def by (auto simp del: bind_assoc split: if_splits)
  from assms pe pf pp have "reqs = []" and "sd_email (io_data out) = or_empty ?e"
    and "sd_firstname (io_data out) = or_empty ?f" and "sd_phone (io_data out) = or_empty ?p"
    unfolding initiatePayment_def Let_def by (auto simp del: bind_assoc split: if_splits)
  with pe pf pp show ?thesis
    unfolding email_candidates_def firstname_candidates_def phone_candidates_def
    by (simp only: present_Some_or_empty first_present_opt_or2 first_present_opt_or3
        first_present_opt_or4 simp_thms)
qed

text \<open>
  Claim C9, as the code has it.  \<open>initiatePayment\<close> resolves the email, the first name
  and the phone number each from a list of candidates: the customer of the platform's
  context first, then (for the phone) the customer's billing address, then the values of
  the payload.  When one of the three has no candidate that is present and not empty,
  \<open>initiatePayment\<close> throws an error whose message names the first of them that is
  missing, in the order email, first name, phone, and has sent no request; when it returns,
  it has sent no request and the session holds the first present candidate of each list.
\<close>

theorem initiatePayment_required_fields:
  "(first_present (email_candidates input) = None \<longrightarrow>
      initiatePayment config rt env now random input =
      (Inl (Error (''Customer email is required for payment processing. '' @
       ''Pass email in data payload or ensure customer is logged in.'')), [])) \<and>
   (first_present (email_candidates input) \<noteq> None \<and>
    first_present (firstname_candidates input) = None \<longrightarrow>
      initiatePayment config rt env now random input =
      (Inl (Error ''Customer name is required for payment processing. Pass firstname in data payload.''), [])) \<and>
   (first_present (email_candidates input) \<noteq> None \<and>
    first_present (firstname_candidates input) \<noteq> None \<and>
    first_present (phone_candidates input) = None \<longrightarrow>
      initiatePayment config rt env now random input =
      (Inl (Error ''Phone number is required for payment processing. Pass phone in data payload.''), [])) \<and>
   (\<forall>out reqs. initiatePayment config rt env now random input = (Inr out, reqs) \<longrightarrow>
      reqs = [] \<and>
      first_present (email_candidates input) = Some (sd_email (io_data out)) \<and>
      first_present (firstname_candidates input) = Some (sd_firstname (io_data out)) \<and>
      first_present (phone_candidates input) = Some (sd_phone (io_data out)))"
  using initiatePayment_email_unresolved [of input config rt env now random]
    initiatePayment_firstname_unresolved [of input config rt env now random]
    initiatePayment_phone_unresolved [of input config rt env now random]
    initiatePayment_resolved [of config rt env now random input]
  unfolding EMAIL_REQUIRED_def NAME_REQUIRED_def PHONE_REQUIRED_def
  by blast

lemma initiatePayment_input0:
  "\<exists>out. initiatePayment config0 runtime0 env0 ''1700000000000'' ''a1b2c3d4'' input0 = (Inr out, []) \<and>
     sd_email (io_data out) = ''customer@shop.example''"
  by (simp add: initiatePayment_def Let_def input0_def env0_def opt_or_def present_def or_empty_def)

theorem initiatePayment_required_fields_witness:
  "first_present (email_candidates input_empty) = None \<and>
   initiatePayment config0 runtime0 env0 ''1700000000000'' ''a1b2c3d4'' input_empty =
     (Inl (Error (''Customer email is required for payment processing. '' @
       ''Pass email in data payload or ensure customer is logged in.'')), []) \<and>
   first_present (email_candidates input_no_name) \<noteq> None \<and>
   first_present (firstname_candidates input_no_name) = None \<and>
   initiatePayment config0 runtime0 env0 ''1700000000000'' ''a1b2c3d4'' input_no_name =
     (Inl (Error ''Customer name is required for payment processing. Pass firstname in data payload.''), []) \<and>
   first_present (email_candidates input_no_phone) \<noteq> None \<and>
   first_present (firstname_candidates input_no_phone) \<noteq> None \<and>
   first_present (phone_candidates input_no_phone) = None \<and>
   initiatePayment config0 runtime0 env0 ''1700000000000'' ''a1b2c3d4'' input_no_phone =
     (Inl (Error ''Phone number is required for payment processing. Pass phone in data payload.''), []) \<and>
   (\<exists>out. initiatePayment config0 runtime0 env0 ''1700000000000'' ''a1b2c3d4'' input0 = (Inr out, []) \<and>
      first_present (email_candidates input0) = Some (sd_email (io_data out)))"
proof -
  have a: "first_present (email_candidates input_empty) = None"
    by (simp add: email_candidates_def input_empty_def present_def)
  have b: "first_present (email_candidates input_no_name) \<noteq> None"
    "first_present (firstname_candidates input_no_name) = None"
    by (simp_all add: email_candidates_def firstname_candidates_def input_no_name_def present_def)
  have c: "first_present (email_candidates input_no_phone) \<noteq> None"
    "first_present (firstname_candidates input_no_phone) \<noteq> None"
    "first_present (phone_candidates input_no_phone) = None"
    by (simp_all add: email_candidates_def firstname_candidates_def phone_candidates_def
        input_no_phone_def present_def)
  from initiatePayment_input0 obtain out where
    o: "initiatePayment config0 runtime0 env0 ''1700000000000'' ''a1b2c3d4'' input0 = (Inr out, [])"
    by blast
  from initiatePayment_required_fields [of input0 config0 runtime0 env0 "''1700000000000''" "''a1b2c3d4''"] o
  have d: "first_present (email_candidates input0) = Some (sd_email (io_data out))" by blast
  from initiatePayment_required_fields [of input_empty config0 runtime0 env0 "''1700000000000''" "''a1b2c3d4''"]
    initiatePayment_required_fields [of input_no_name config0 runtime0 env0 "''1700000000000''" "''a1b2c3d4''"]
    initiatePayment_required_fields [of input_no_phone config0 runtime0 env0 "''1700000000000''" "''a1b2c3d4''"]
    a b c d o
  show ?thesis by blast
qed

text \<open>
  Claim C9 as stated fails in the order: with a customer in the context, the email of the
  payload is passed over and the customer's email is used.
\<close>

theorem initiatePayment_order_counterexample:
  "Option.bind (ip_data input0) id_email = Some ''payload@shop.example'' \<and>
   map_sum id (\<lambda>out. sd_email (io_data out))
     (fst (initiatePayment config0 runtime0 env0 ''1700000000000'' ''a1b2c3d4'' input0)) =
   Inr ''customer@shop.example''"
  by (simp add: initiatePayment_def Let_def input0_def env0_def opt_or_def present_def or_empty_def)

section \<open>Rounding and parsing of amounts\<close>

lemma ilog2_bounds: "1 \<le> n \<Longrightarrow> 2 ^ ilog2 n \<le> n \<and> n < 2 ^ (ilog2 n + 1)"
proof (induction n rule: ilog2.induct)
  case (1 n)
  show ?case
  proof (cases "n \<le> 1")
    case True
    with "1.prems" have "n = 1" by simp
    then show ?thesis by (simp add: ilog2.simps)
  next
    case False
    then have h: "1 \<le> n div 2" by simp
    from "1.IH" [OF False h] have a: "2 ^ ilog2 (n div 2) \<le> n div 2"
      and b: "n div 2 < 2 ^ (ilog2 (n div 2) + 1)" by simp_all
    from False have s: "ilog2 n = Suc (ilog2 (n div 2))" by (subst ilog2.simps) simp
    from a have "2 * 2 ^ ilog2 (n div 2) \<le> n" by linarith
    moreover from b have "n < 2 * 2 ^ (ilog2 (n div 2) + 1)" by linarith
    ultimately show ?thesis by (simp add: s)
  qed
qed

lemma round_half_even_dvd: "0 < b \<Longrightarrow> b dvd a \<Longrightarrow> round_half_even a b = a div b"
  by (simp add: round_half_even_def Let_def)

lemma floor_log2_lower:
  assumes "0 < num" "0 < den"
  shows "if 0 \<le> floor_log2 num den then den * 2 ^ nat (floor_log2 num den) \<le> num
         else den \<le> num * 2 ^ nat (- floor_log2 num den)"
proof -
  define a where "a = ilog2 num"
  define b where "b = ilog2 den"
  from assms ilog2_bounds [of num] ilog2_bounds [of den]
  have na: "2 ^ a \<le> num" and db: "den < 2 ^ (b + 1)"
    by (simp_all add: a_def b_def)
  let ?chk = "if 0 \<le> int a - int b then den * 2 ^ nat (int a - int b) \<le> num
              else den \<le> num * 2 ^ nat (- (int a - int b))"
  show ?thesis
  proof (cases ?chk)
    case True
    then have "floor_log2 num den = int a - int b"
      unfolding floor_log2_def Let_def a_def b_def by simp
    with True show ?thesis by (auto split: if_splits)
  next
    case False
    then have e: "floor_log2 num den = int a - int b - 1"
      unfolding floor_log2_def Let_def a_def b_def by simp
    show ?thesis
    proof (cases "b < a")
      case True
      from True have "(2::int) ^ a = 2 ^ ((b + 1) + (a - b - 1))" by simp
      then have "(2::int) ^ a = 2 ^ (b + 1) * 2 ^ (a - b - 1)"
        by (simp only: power_add)
      moreover from db have "den * 2 ^ (a - b - 1) \<le> 2 ^ (b + 1) * (2::int) ^ (a - b - 1)"
        by (simp add: mult_right_mono)
      ultimately have r: "den * 2 ^ (a - b - 1) \<le> num" using na by linarith
      have pos: "0 \<le> floor_log2 num den" using e True by simp
      have nn: "nat (floor_log2 num den) = a - b - 1" using e True by simp
      from r show ?thesis by (simp only: pos nn if_True)
    next
      case False
      from False have "(2::int) ^ (b + 1) = 2 ^ (a + (b + 1 - a))" by simp
      then have "(2::int) ^ (b + 1) = 2 ^ a * 2 ^ (b + 1 - a)"
        by (simp only: power_add)
      moreover from na have "2 ^ a * (2::int) ^ (b + 1 - a) \<le> num * 2 ^ (b + 1 - a)"
        by (simp add: mult_right_mono)
      ultimately have r: "den \<le> num * 2 ^ (b + 1 - a)" using db by linarith
      have neg: "\<not> 0 \<le> floor_log2 num den" using e False by simp
      have nn: "nat (- floor_log2 num den) = b + 1 - a" using e False by simp
      from r show ?thesis by (simp only: neg nn if_False)
    qed
  qed
qed

lemma round_double_whole:
  assumes "0 < den" "0 \<le> n" "n < 2 ^ 53"
  shows "round_double (n * den) den = Finite (of_int n)"
proof (cases "n = 0")
  case True
  then show ?thesis by (simp add: round_double_def)
next
  case False
  with assms have np: "0 < n" by simp
  with assms have nd: "0 < n * den" by simp
  define e where "e = floor_log2 (n * den) den"
  have e52: "e \<le> 52"
  proof (rule ccontr)
    assume "\<not> e \<le> 52"
    then have e53: "53 \<le> e" by simp
    with floor_log2_lower [OF nd assms(1)] have "den * 2 ^ nat e \<le> n * den"
      by (simp add: e_def)
    with assms(1) have "2 ^ nat e \<le> n" by simp
    moreover from e53 have "(2::int) ^ 53 \<le> 2 ^ nat e"
      by (intro power_increasing) simp_all
    ultimately show False using assms(3) by linarith
  qed
  define u where "u = max (e - 52) (- 1074)"
  from e52 have u0: "u \<le> 0" by (simp add: u_def)
  have m: "round_half_even (n * den * 2 ^ nat (- u)) den = n * 2 ^ nat (- u)"
    using assms(1) by (subst round_half_even_dvd) simp_all
  show ?thesis
  proof (cases "u = 0")
    case True
    with assms(1) have "round_half_even (n * den) (den * 2 ^ nat u) = n"
      by (subst round_half_even_dvd) simp_all
    with True nd assms(1) assms(3) show ?thesis
      by (simp add: round_double_def Let_def e_def [symmetric] u_def [symmetric] scale2_def)
  next
    case False
    with u0 have "u < 0" by simp
    with m nd assms(1) show ?thesis
      by (simp add: round_double_def Let_def e_def [symmetric] u_def [symmetric] scale2_def)
  qed
qed

lemma digitsValue_snoc: "digitsValue (ds @ [c]) = 10 * digitsValue ds + (of_char c - 48)"
  by (simp add: digitsValue_def)

lemma digitsValue_append:
  "digitsValue (a @ b) = digitsValue a * 10 ^ length b + digitsValue b"
proof (induction b rule: rev_induct)
  case Nil
  then show ?case by (simp add: digitsValue_def)
next
  case (snoc c b)
  have "digitsValue (a @ b @ [c]) = 10 * digitsValue (a @ b) + (of_char c - 48)"
    using digitsValue_snoc [of "a @ b" c] by simp
  with snoc show ?case by (simp add: digitsValue_snoc algebra_simps)
qed

lemma digitsValue_nonneg: "list_all isDigit ds \<Longrightarrow> 0 \<le> digitsValue ds"
proof (induction ds rule: rev_induct)
  case Nil
  then show ?case by (simp add: digitsValue_def)
next
  case (snoc c ds)
  then have "0 \<le> digitsValue ds" and "isDigit c" by simp_all
  then show ?case by (simp add: digitsValue_snoc isDigit_def)
qed

lemma not_digit_dot: "\<not> isDigit CHR ''.''"
  by (simp add: isDigit_def)

lemma digit_plain:
  "isDigit c \<Longrightarrow> \<not> isWhiteSpace c \<and> c \<noteq> CHR ''-'' \<and> c \<noteq> CHR ''+''"
  by (auto simp: isDigit_def isWhiteSpace_def)

lemma parseUnsigned_parts:
  assumes t: "takeWhile isDigit s = ip" and d: "dropWhile isDigit s = CHR ''.'' # fp"
    and "list_all isDigit fp" and n: "ip \<noteq> []"
  shows "parseUnsigned s = round_double (digitsValue (ip @ fp)) (10 ^ length fp)"
proof -
  from assms(3) have tf: "takeWhile isDigit fp = fp" and df: "dropWhile isDigit fp = []"
    by (simp_all add: list_all_iff)
  show ?thesis
  proof (cases "fp = []")
    case True
    then show ?thesis
      by (simp add: parseUnsigned_def Let_def parseExponent_def t d n)
  next
    case False
    then show ?thesis
      by (simp add: parseUnsigned_def Let_def parseExponent_def t d tf df n)
  qed
qed

lemma parseUnsigned_decimal:
  assumes "list_all isDigit ip" "ip \<noteq> []" "list_all isDigit fp"
  shows "parseUnsigned (ip @ ''.'' @ fp) = round_double (digitsValue (ip @ fp)) (10 ^ length fp)"
proof -
  from assms(1) have t: "takeWhile isDigit (ip @ ''.'' @ fp) = ip"
    by (simp add: takeWhile_append2 list_all_iff not_digit_dot)
  from assms(1) have d: "dropWhile isDigit (ip @ ''.'' @ fp) = CHR ''.'' # fp"
    by (simp add: dropWhile_append2 list_all_iff not_digit_dot)
  from parseUnsigned_parts [OF t d assms(3) assms(2)] show ?thesis .
qed

lemma parseFloat_decimal:
  assumes "list_all isDigit ip" "ip \<noteq> []" "list_all isDigit fp"
  shows "parseFloat (ip @ ''.'' @ fp) = round_double (digitsValue (ip @ fp)) (10 ^ length fp)"
proof -
  from assms(2) obtain c r where ip: "ip = c # r" by (cases ip) auto
  with assms(1) have "isDigit c" by simp
  with digit_plain have "\<not> isWhiteSpace c" "c \<noteq> CHR ''-''" "c \<noteq> CHR ''+''" by auto
  then have "parseFloat (ip @ ''.'' @ fp) = parseUnsigned (ip @ ''.'' @ fp)"
    by (simp add: parseFloat_def ip)
  with parseUnsigned_decimal [OF assms] show ?thesis by simp
qed

lemma parseFloat_whole:
  assumes "list_all isDigit ip" "ip \<noteq> []" "list_all isDigit fp"
    and "digitsValue fp = 0" "digitsValue ip < 2 ^ 53"
  shows "parseFloat (ip @ ''.'' @ fp) = Finite (decimal_value ip fp)"
proof -
  have "digitsValue (ip @ fp) = digitsValue ip * 10 ^ length fp"
    by (simp add: digitsValue_append assms(4))
  moreover have "round_double (digitsValue ip * 10 ^ length fp) (10 ^ length fp) =
      Finite (of_int (digitsValue ip))"
    using round_double_whole [of "10 ^ length fp" "digitsValue ip"]
      digitsValue_nonneg [OF assms(1)] assms(5) by simp
  ultimately show ?thesis
    using parseFloat_decimal [OF assms(1-3)] by (simp add: decimal_value_def assms(4))
qed

lemma parseFloat_500: "parseFloat ''500.00'' = Finite 500"
  using parseFloat_whole [of "''500''" "''00''"]
  by (simp add: isDigit_def digitsValue_def decimal_value_def)

lemma parseFloat_undefined: "parseFloat ''undefined'' = NaN"
  by (simp add: parseFloat_def parseUnsigned_def isWhiteSpace_def isDigit_def)

lemma parseFloat_large: "parseFloat ''9007199254740993.01'' = Finite 9007199254740994"
  by code_simp

section \<open>The webhook handler\<close>

lemma snd_and_then:
  "snd (and_then m f) = (case snd m of Inl e \<Rightarrow> Inl e | Inr x \<Rightarrow> snd (f x))"
  by (cases m) (auto simp: and_then_def split: sum.splits prod.splits)

lemma fst_and_then:
  "fst (and_then m f) = (case snd m of Inl e \<Rightarrow> fst m | Inr x \<Rightarrow> fst m @ fst (f x))"
  by (cases m) (auto simp: and_then_def split: sum.splits prod.splits)

lemma snd_emit:
  "snd (emit logger level event subs) =
   (if logger level \<and> \<not> list_all (\<lambda>v. toStr v \<noteq> None) subs then Inl cannot_convert else Inr ())"
  by (simp add: emit_def)

lemma fst_emit:
  "fst (emit logger level event subs) =
   (if logger level \<and> list_all (\<lambda>v. toStr v \<noteq> None) subs then [(level, event)] else [])"
  by (simp add: emit_def)

lemma snd_getWebhookActionAndData:
  "snd (getWebhookActionAndData config rt logger payload) =
   (case snd (webhookTry config rt logger payload) of Inl e \<Rightarrow> not_supported | Inr r \<Rightarrow> r)"
  by (cases "webhookTry config rt logger payload")
     (simp add: getWebhookActionAndData_def split: sum.splits)

lemma fst_getWebhookActionAndData:
  "snd (webhookTry config rt logger payload) = Inr r \<Longrightarrow>
   fst (getWebhookActionAndData config rt logger payload) = fst (webhookTry config rt logger payload)"
  by (cases "webhookTry config rt logger payload") (simp add: getWebhookActionAndData_def)

lemma toStr_js_or: "toStr x \<noteq> None \<Longrightarrow> toStr (js_or x (JString s)) \<noteq> None"
  by (simp add: js_or_def)

lemma snd_webhookTry_valid:
  assumes "valid_fields rt logger payload webhook"
  shows "snd (webhookTry config rt logger payload) =
     (case snd (emit logger Info WebhookReceived
             [get_prop webhook ''txnid'', js_or (get_prop webhook ''mihpayid'') (JString ''N/A''),
              get_prop webhook ''status'', js_or (get_prop webhook ''amount'') (JString ''N/A''),
              js_or (get_prop webhook ''mode'') (JString ''N/A'')]) of
        Inl e \<Rightarrow> Inl e
      | Inr _ \<Rightarrow>
         (case verifyResponseHash config (webhookHashParams webhook) of
             Inl e \<Rightarrow> Inl e
           | Inr isValid \<Rightarrow>
               if \<not> isValid
               then (case snd (emit logger Warn HashVerificationFailed [get_prop webhook ''txnid'']) of
                       Inl e \<Rightarrow> Inl e | Inr _ \<Rightarrow> Inr not_supported)
               else (case snd (emit logger Debug HashVerified [get_prop webhook ''txnid'']) of
                       Inl e \<Rightarrow> Inl e | Inr _ \<Rightarrow> snd (classifyWebhook logger webhook))))"
proof -
  have raw: "snd (emit logger Info RawPayloadStructure []) = Inr ()"
    by (simp add: snd_emit)
  from assms have sel: "snd (selectWebhook rt logger payload) = Inr (Some webhook)"
    and tr: "truthy (get_prop webhook ''txnid'')" "truthy (get_prop webhook ''status'')"
      "truthy (get_prop webhook ''hash'')"
    by (simp_all add: valid_fields_def)
  show ?thesis
    unfolding webhookTry_def snd_and_then raw sel
    by (auto simp: tr snd_and_then yield_def split: sum.splits)
qed
lemma emit_received_loggable:
  "loggable webhook \<Longrightarrow>
   snd (emit logger level event
     [get_prop webhook ''txnid'', js_or (get_prop webhook ''mihpayid'') (JString ''N/A''),
      get_prop webhook ''status'', js_or (get_prop webhook ''amount'') (JString ''N/A''),
      js_or (get_prop webhook ''mode'') (JString ''N/A'')]) = Inr ()"
  by (simp add: snd_emit loggable_def toStr_js_or)

lemma emit_txnid_loggable:
  "loggable webhook \<Longrightarrow> snd (emit logger level event [get_prop webhook ''txnid'']) = Inr ()"
  by (simp add: snd_emit loggable_def)

lemma snd_webhookTry_loggable:
  assumes "valid_fields rt logger payload webhook" and "loggable webhook"
  shows "snd (webhookTry config rt logger payload) =
     (case verifyResponseHash config (webhookHashParams webhook) of
        Inl e \<Rightarrow> Inl e
      | Inr isValid \<Rightarrow> if isValid then snd (classifyWebhook logger webhook) else Inr not_supported)"
  unfolding snd_webhookTry_valid [OF assms(1)] emit_received_loggable [OF assms(2)]
    emit_txnid_loggable [OF assms(2)]
  by (simp split: sum.splits)

lemma fst_webhookTry_rejected:
  assumes "valid_fields rt logger payload webhook"
    and "verifyResponseHash config (webhookHashParams webhook) = Inr False"
    and "logger Warn" and "loggable webhook"
  shows "(Warn, HashVerificationFailed) \<in> set (fst (webhookTry config rt logger payload))"
proof -
  have raw: "snd (emit logger Info RawPayloadStructure []) = Inr ()"
    by (simp add: snd_emit)
  from assms(1) have sel: "snd (selectWebhook rt logger payload) = Inr (Some webhook)"
    and tr: "truthy (get_prop webhook ''txnid'')" "truthy (get_prop webhook ''status'')"
      "truthy (get_prop webhook ''hash'')"
    by (simp_all add: valid_fields_def)
  from assms(3,4) have w: "fst (emit logger Warn HashVerificationFailed [get_prop webhook ''txnid'']) =
      [(Warn, HashVerificationFailed)]"
    by (simp add: fst_emit loggable_def)
  show ?thesis
    unfolding webhookTry_def
    by (simp add: fst_and_then snd_and_then raw sel tr assms(2) w
        emit_received_loggable [OF assms(4)] emit_txnid_loggable [OF assms(4)])
qed

lemma fst_webhookTry_classified:
  assumes "valid_fields rt logger payload webhook"
    and "verifyResponseHash config (webhookHashParams webhook) = Inr True"
    and "loggable webhook" and "x \<in> set (fst (classifyWebhook logger webhook))"
  shows "x \<in> set (fst (webhookTry config rt logger payload))"
proof -
  have raw: "snd (emit logger Info RawPayloadStructure []) = Inr ()"
    by (simp add: snd_emit)
  from assms(1) have sel: "snd (selectWebhook rt logger payload) = Inr (Some webhook)"
    and tr: "truthy (get_prop webhook ''txnid'')" "truthy (get_prop webhook ''status'')"
      "truthy (get_prop webhook ''hash'')"
    by (simp_all add: valid_fields_def)
  show ?thesis
    unfolding webhookTry_def
    by (simp add: fst_and_then snd_and_then raw sel tr assms(2,4)
        emit_received_loggable [OF assms(3)] emit_txnid_loggable [OF assms(3)])
qed
text \<open>How the classification ends, by the class of the status.\<close>

lemma snd_webhookAmount:
  "toStr (get_prop webhook ''amount'') = Some a \<Longrightarrow>
   snd (webhookAmount webhook) = BigNumber (parseFloat a)"
  by (simp add: webhookAmount_def)

lemma snd_classifyWebhook:
  assumes "get_prop webhook ''status'' = JString s" and "loggable webhook"
    and "toStr (get_prop webhook ''amount'') = Some a"
  shows "snd (classifyWebhook logger webhook) =
     (case spec_classify s of
        SpecAuthorized \<Rightarrow>
          map_sum id (\<lambda>n. \<lparr>wa_action = action_authorized,
              wa_data = Some \<lparr>wd_session_id = sessionCorrelationId webhook, wd_amount = n\<rparr>\<rparr>)
            (BigNumber (parseFloat a))
      | SpecFailed \<Rightarrow>
          map_sum id (\<lambda>n. \<lparr>wa_action = action_failed,
              wa_data = Some \<lparr>wd_session_id = sessionCorrelationId webhook, wd_amount = n\<rparr>\<rparr>)
            (BigNumber (parseFloat a))
      | _ \<Rightarrow> Inr not_supported)"
proof -
  from assms(2) have l: "toStr (get_prop webhook ''txnid'') \<noteq> None"
    "toStr (get_prop webhook ''mihpayid'') \<noteq> None" "toStr (get_prop webhook ''status'') \<noteq> None"
    "toStr (get_prop webhook ''amount'') \<noteq> None" "toStr (get_prop webhook ''udf1'') \<noteq> None"
    "toStr (get_prop webhook ''error'') \<noteq> None" "toStr (get_prop webhook ''error_Message'') \<noteq> None"
    by (simp_all add: loggable_def)
  have sid: "js_or (get_prop webhook ''udf1'') (get_prop webhook ''txnid'') =
      sessionCorrelationId webhook"
    by (simp add: js_or_def sessionCorrelationId_def)
  from l have s: "toStr (sessionCorrelationId webhook) \<noteq> None"
    by (simp add: sessionCorrelationId_def)
  have e: "snd (emit logger Info PaymentSuccess
        [get_prop webhook ''txnid'', sessionCorrelationId webhook]) = Inr ()"
    "snd (emit logger Info PaymentFailed
        [get_prop webhook ''txnid'', js_or (get_prop webhook ''error'') (JString ''N/A''),
         js_or (get_prop webhook ''error_Message'') (JString ''N/A'')]) = Inr ()"
    "snd (emit logger Info RefundProcessed
        [get_prop webhook ''txnid'', js_or (get_prop webhook ''mihpayid'') (JString ''N/A''),
         get_prop webhook ''amount'']) = Inr ()"
    "snd (emit logger Warn DisputeChargebackManualReview
        [get_prop webhook ''txnid'', js_or (get_prop webhook ''mihpayid'') (JString ''N/A''),
         get_prop webhook ''amount'']) = Inr ()"
    "snd (emit logger Info UnhandledStatus [JString s, get_prop webhook ''txnid'']) = Inr ()"
    using l s by (simp_all add: snd_emit toStr_js_or)
  show ?thesis
    unfolding classifyWebhook_def spec_classify_def Let_def sid assms(1)
    by (cases "BigNumber (parseFloat a)")
       (simp_all add: snd_and_then e snd_webhookAmount [OF assms(3)] yield_def)
qed

lemma fst_classifyWebhook:
  assumes "get_prop webhook ''status'' = JString s" and "loggable webhook"
  shows "(spec_classify s = SpecAcknowledged \<and> logger Info \<longrightarrow>
            (Info, RefundProcessed) \<in> set (fst (classifyWebhook logger webhook))) \<and>
         (spec_classify s = SpecManualReview \<and> logger Warn \<longrightarrow>
            (Warn, DisputeChargebackManualReview) \<in> set (fst (classifyWebhook logger webhook)))"
proof -
  from assms(2) have l: "toStr (get_prop webhook ''txnid'') \<noteq> None"
    "toStr (get_prop webhook ''mihpayid'') \<noteq> None" "toStr (get_prop webhook ''amount'') \<noteq> None"
    by (simp_all add: loggable_def)
  have e: "logger Info \<Longrightarrow> emit logger Info RefundProcessed
        [get_prop webhook ''txnid'', js_or (get_prop webhook ''mihpayid'') (JString ''N/A''),
         get_prop webhook ''amount''] = ([(Info, RefundProcessed)], Inr ())"
    "logger Warn \<Longrightarrow> emit logger Warn DisputeChargebackManualReview
        [get_prop webhook ''txnid'', js_or (get_prop webhook ''mihpayid'') (JString ''N/A''),
         get_prop webhook ''amount''] = ([(Warn, DisputeChargebackManualReview)], Inr ())"
    using l by (simp_all add: emit_def toStr_js_or)
  show ?thesis
    unfolding classifyWebhook_def spec_classify_def Let_def assms(1)
    by (simp add: fst_and_then e split: if_splits)
qed
text \<open>The example webhooks.\<close>

lemma get_prop_webhook_of:
  "k \<noteq> ''hash'' \<Longrightarrow> k \<notin> fst ` set entries \<Longrightarrow>
   get_prop (webhook_of h entries) k = get_prop (JObject webhook_base) k"
proof -
  assume "k \<noteq> ''hash''" and "k \<notin> fst ` set entries"
  then have "map_of (entries @ webhook_base) k = map_of webhook_base k"
    by (simp add: map_add_def map_of_eq_None_iff [THEN iffD2] split: option.splits)
  with \<open>k \<noteq> ''hash''\<close> show ?thesis
    by (simp add: webhook_of_def)
qed

lemma get_prop_webhook_of_hash: "get_prop (webhook_of h entries) ''hash'' = h"
  by (simp add: webhook_of_def)

lemma valid_fields_payload_of:
  assumes "truthy h" and "fst ` set entries \<subseteq> {''amount'', ''mihpayid''}"
  shows "valid_fields rt logger (payload_of h entries) (webhook_of h entries)"
proof -
  from assms(2) have nk: "k \<notin> {''amount'', ''mihpayid''} \<Longrightarrow> k \<notin> fst ` set entries" for k
    by blast
  have t: "get_prop (webhook_of h entries) ''txnid'' = JString ''TXN1''"
    and s: "get_prop (webhook_of h entries) ''status'' = JString ''success''"
    by (simp_all add: get_prop_webhook_of nk webhook_base_def)
  have o: "truthy (webhook_of h entries)" "is_object (webhook_of h entries)"
    by (simp_all add: webhook_of_def)
  have "snd (selectWebhook rt logger (payload_of h entries)) = Inr (Some (webhook_of h entries))"
    by (simp add: selectWebhook_def payload_of_def t s o snd_and_then snd_emit yield_def)
  with assms(1) show ?thesis
    by (simp add: valid_fields_def t s get_prop_webhook_of_hash)
qed

lemma webhookHashParams_webhook_of:
  assumes "fst ` set entries \<subseteq> {''amount'', ''mihpayid''}"
  shows "webhookHashParams (webhook_of h entries) =
         response0\<lparr>rh_amount := get_prop (webhook_of h entries) ''amount'', rh_hash := h\<rparr>"
proof -
  from assms have nk: "k \<notin> {''amount'', ''mihpayid''} \<Longrightarrow> k \<notin> fst ` set entries" for k
    by blast
  show ?thesis
    by (simp add: webhookHashParams_def get_prop_webhook_of nk get_prop_webhook_of_hash
        webhook_base_def response0_def)
qed

lemma responseHashString_amount:
  "toStr v = Some a \<Longrightarrow>
   responseHashString config0 (response0\<lparr>rh_amount := v, rh_hash := h\<rparr>) =
   Some (''SALT|success||||||||||sess_abc|a@b.com|Jane|Order|'' @ a @ ''|TXN1|KEY'')"
  by (simp add: responseHashString_def config0_def response0_def js_or_def)

lemma verifyResponseHash_webhook_of:
  assumes "fst ` set entries \<subseteq> {''amount'', ''mihpayid''}"
    and "toStr (get_prop (webhook_of (JString d) entries) ''amount'') = Some a"
  shows "verifyResponseHash config0 (webhookHashParams (webhook_of (JString d) entries)) =
         Inr (sha512_hex (''SALT|success||||||||||sess_abc|a@b.com|Jane|Order|'' @ a @ ''|TXN1|KEY'') =
              toLowerCase d)"
  unfolding webhookHashParams_webhook_of [OF assms(1)]
  by (rule verifyResponseHash_string [OF _ responseHashString_amount [OF assms(2)]]) simp

lemma verified_payload0:
  "verifyResponseHash config0 (webhookHashParams (webhook_of (JString
     ''ba96e2ddd786cacd93a4057db0088e2afc82bb4af3e8f1438dd082b25f8938e6c61350d04ccff0e5aaef75692ece10f3760dd4bc16979321043fd5a2cdd6686b'')
     [(''amount'', JString ''500.00'')])) = Inr True"
proof -
  have "toLowerCase ''ba96e2ddd786cacd93a4057db0088e2afc82bb4af3e8f1438dd082b25f8938e6c61350d04ccff0e5aaef75692ece10f3760dd4bc16979321043fd5a2cdd6686b'' = ''ba96e2ddd786cacd93a4057db0088e2afc82bb4af3e8f1438dd082b25f8938e6c61350d04ccff0e5aaef75692ece10f3760dd4bc16979321043fd5a2cdd6686b''"
    by (rule toLowerCase_hex_literal) simp
  then show ?thesis
    by (subst verifyResponseHash_webhook_of [where a = "''500.00''"])
       (simp_all add: webhook_of_def sha512_hex_response0)
qed

lemma rejected_payload_tampered:
  "verifyResponseHash config0 (webhookHashParams (webhook_of (JString
     ''ba96e2ddd786cacd93a4057db0088e2afc82bb4af3e8f1438dd082b25f8938e6c61350d04ccff0e5aaef75692ece10f3760dd4bc16979321043fd5a2cdd6686c'')
     [(''amount'', JString ''500.00'')])) = Inr False"
proof -
  have "toLowerCase ''ba96e2ddd786cacd93a4057db0088e2afc82bb4af3e8f1438dd082b25f8938e6c61350d04ccff0e5aaef75692ece10f3760dd4bc16979321043fd5a2cdd6686c'' = ''ba96e2ddd786cacd93a4057db0088e2afc82bb4af3e8f1438dd082b25f8938e6c61350d04ccff0e5aaef75692ece10f3760dd4bc16979321043fd5a2cdd6686c''"
    by (rule toLowerCase_hex_literal) simp
  then show ?thesis
    by (subst verifyResponseHash_webhook_of [where a = "''500.00''"])
       (simp_all add: webhook_of_def sha512_hex_response0)
qed

lemma verified_payload_no_amount:
  "verifyResponseHash config0 (webhookHashParams (webhook_of (JString
     ''b7a5174f208e5bf189ba0381552a31846979e9e05db4efd1a2d868f52118d375c05c0b97c81a384b6200f3f7a247dc041a0e342dc6fecb279903f6b4f7b90b0e'')
     [])) = Inr True"
proof -
  have "toLowerCase ''b7a5174f208e5bf189ba0381552a31846979e9e05db4efd1a2d868f52118d375c05c0b97c81a384b6200f3f7a247dc041a0e342dc6fecb279903f6b4f7b90b0e'' = ''b7a5174f208e5bf189ba0381552a31846979e9e05db4efd1a2d868f52118d375c05c0b97c81a384b6200f3f7a247dc041a0e342dc6fecb279903f6b4f7b90b0e''"
    by (rule toLowerCase_hex_literal) simp
  then show ?thesis
    by (subst verifyResponseHash_webhook_of [where a = "''undefined''"])
       (simp_all add: webhook_of_def webhook_base_def sha512_hex_no_amount)
qed

lemma verified_payload_large_amount:
  "verifyResponseHash config0 (webhookHashParams (webhook_of (JString
     ''eee0197c834cdb076308cccbd0de48ef3907c5bf09713ede81881cd6b45854279bfa2a1d79d63a679b3fc3151f44f1f5be4475900dae41cb4aecbbb66f679c93'')
     [(''amount'', JString ''9007199254740993.01'')])) = Inr True"
proof -
  have "toLowerCase ''eee0197c834cdb076308cccbd0de48ef3907c5bf09713ede81881cd6b45854279bfa2a1d79d63a679b3fc3151f44f1f5be4475900dae41cb4aecbbb66f679c93'' = ''eee0197c834cdb076308cccbd0de48ef3907c5bf09713ede81881cd6b45854279bfa2a1d79d63a679b3fc3151f44f1f5be4475900dae41cb4aecbbb66f679c93''"
    by (rule toLowerCase_hex_literal) simp
  then show ?thesis
    by (subst verifyResponseHash_webhook_of [where a = "''9007199254740993.01''"])
       (simp_all add: webhook_of_def sha512_hex_large_amount)
qed

lemma verified_payload_object_mihpayid:
  "verifyResponseHash config0 (webhookHashParams (webhook_of (JString
     ''ba96e2ddd786cacd93a4057db0088e2afc82bb4af3e8f1438dd082b25f8938e6c61350d04ccff0e5aaef75692ece10f3760dd4bc16979321043fd5a2cdd6686b'')
     [(''amount'', JString ''500.00''), (''mihpayid'', JObject [(''toString'', JNull)])])) = Inr True"
proof -
  have "toLowerCase ''ba96e2ddd786cacd93a4057db0088e2afc82bb4af3e8f1438dd082b25f8938e6c61350d04ccff0e5aaef75692ece10f3760dd4bc16979321043fd5a2cdd6686b'' = ''ba96e2ddd786cacd93a4057db0088e2afc82bb4af3e8f1438dd082b25f8938e6c61350d04ccff0e5aaef75692ece10f3760dd4bc16979321043fd5a2cdd6686b''"
    by (rule toLowerCase_hex_literal) simp
  then show ?thesis
    by (subst verifyResponseHash_webhook_of [where a = "''500.00''"])
       (simp_all add: webhook_of_def sha512_hex_response0)
qed

lemma loggable_webhook_of_amount:
  "loggable (webhook_of h [(''amount'', JString a)])"
  by (simp add: loggable_def webhook_of_def webhook_base_def)

lemma loggable_webhook_of_no_amount: "loggable (webhook_of h [])"
  by (simp add: loggable_def webhook_of_def webhook_base_def)
lemma getWebhook_no_webhook:
  assumes "snd (selectWebhook rt logger payload) = Inr None"
  shows "snd (getWebhookActionAndData config rt logger payload) = not_supported"
proof -
  have raw: "snd (emit logger Info RawPayloadStructure []) = Inr ()"
    by (simp add: snd_emit)
  show ?thesis
    unfolding snd_getWebhookActionAndData webhookTry_def snd_and_then raw assms
    by (simp add: yield_def)
qed

lemma getWebhook_missing_fields:
  assumes "snd (selectWebhook rt logger payload) = Inr (Some webhook)"
    and "\<not> truthy (get_prop webhook ''txnid'') \<or> \<not> truthy (get_prop webhook ''status'') \<or>
         \<not> truthy (get_prop webhook ''hash'')"
  shows "snd (getWebhookActionAndData config rt logger payload) = not_supported"
proof -
  have raw: "snd (emit logger Info RawPayloadStructure []) = Inr ()"
    by (simp add: snd_emit)
  show ?thesis
    unfolding snd_getWebhookActionAndData webhookTry_def snd_and_then raw assms(1)
    using assms(2) by (auto simp: snd_and_then yield_def split: sum.splits)
qed

lemma getWebhook_exception:
  assumes "snd (webhookTry config rt logger payload) = Inl e"
  shows "snd (getWebhookActionAndData config rt logger payload) = not_supported"
  by (simp add: snd_getWebhookActionAndData assms)

text \<open>
  Claim C3.  When the webhook has its txnid, status and hash, and the hash does not match
  the recomputed reverse hash (the verification returns false, or throws), the handler
  answers \<open>not_supported\<close> without data, whatever the status is.  The handler returns only
  this answer: it has no access to a session and sends no request.  A verification that
  returns false is logged as a warning, when the logger has the method and the fields that
  the log messages print can be converted to strings.
\<close>

theorem getWebhookActionAndData_rejects_bad_hash:
  assumes "valid_fields rt logger payload webhook"
    and "verifyResponseHash config (webhookHashParams webhook) \<noteq> Inr True"
  shows "snd (getWebhookActionAndData config rt logger payload) = not_supported \<and>
         (verifyResponseHash config (webhookHashParams webhook) = Inr False \<and>
          logger Warn \<and> loggable webhook \<longrightarrow>
          (Warn, HashVerificationFailed) \<in>
            set (fst (getWebhookActionAndData config rt logger payload)))"
proof (intro conjI impI)
  show "snd (getWebhookActionAndData config rt logger payload) = not_supported"
    unfolding snd_getWebhookActionAndData snd_webhookTry_valid [OF assms(1)]
    using assms(2) by (auto split: sum.splits)
next
  assume a: "verifyResponseHash config (webhookHashParams webhook) = Inr False \<and>
          logger Warn \<and> loggable webhook"
  then have "snd (webhookTry config rt logger payload) = Inr not_supported"
    by (simp add: snd_webhookTry_loggable [OF assms(1)])
  then have "fst (getWebhookActionAndData config rt logger payload) =
      fst (webhookTry config rt logger payload)"
    by (rule fst_getWebhookActionAndData)
  with a fst_webhookTry_rejected [OF assms(1), of config]
  show "(Warn, HashVerificationFailed) \<in>
      set (fst (getWebhookActionAndData config rt logger payload))"
    by simp
qed

theorem getWebhookActionAndData_rejects_bad_hash_witness:
  "valid_fields runtime0 logger0 payload_tampered
     (webhook_of (JString ''ba96e2ddd786cacd93a4057db0088e2afc82bb4af3e8f1438dd082b25f8938e6c61350d04ccff0e5aaef75692ece10f3760dd4bc16979321043fd5a2cdd6686c'')
        [(''amount'', JString ''500.00'')]) \<and>
   verifyResponseHash config0 (webhookHashParams
     (webhook_of (JString ''ba96e2ddd786cacd93a4057db0088e2afc82bb4af3e8f1438dd082b25f8938e6c61350d04ccff0e5aaef75692ece10f3760dd4bc16979321043fd5a2cdd6686c'')
        [(''amount'', JString ''500.00'')])) = Inr False \<and>
   snd (getWebhookActionAndData config0 runtime0 logger0 payload_tampered) = not_supported \<and>
   (Warn, HashVerificationFailed) \<in>
     set (fst (getWebhookActionAndData config0 runtime0 logger0 payload_tampered))"
proof -
  let ?w = "webhook_of (JString ''ba96e2ddd786cacd93a4057db0088e2afc82bb4af3e8f1438dd082b25f8938e6c61350d04ccff0e5aaef75692ece10f3760dd4bc16979321043fd5a2cdd6686c'')
        [(''amount'', JString ''500.00'')]"
  have a: "valid_fields runtime0 logger0 payload_tampered ?w"
    unfolding payload_tampered_def by (rule valid_fields_payload_of) simp_all
  have b: "verifyResponseHash config0 (webhookHashParams ?w) = Inr False"
    by (rule rejected_payload_tampered)
  then have c: "verifyResponseHash config0 (webhookHashParams ?w) \<noteq> Inr True" by simp
  have d: "logger0 Warn" by (simp add: logger0_def)
  from getWebhookActionAndData_rejects_bad_hash [OF a c] a b d loggable_webhook_of_amount
  show ?thesis by simp
qed

text \<open>
  Claim C6, as the code has it.  For a webhook that has its txnid, status and hash, whose
  hash verifies, whose status is a string and whose logged fields can be converted to
  strings, the answer follows the lower-cased status: \<open>success\<close> gives \<open>authorized\<close>,
  \<open>failure\<close> or \<open>failed\<close> gives \<open>failed\<close>, both with the session correlation id (udf1
  when present and not empty, else the txnid) and the number that \<open>parseFloat\<close> reads from
  the amount, and \<open>not_supported\<close> when that is not a number; \<open>refund\<close> or \<open>refunded\<close> is
  logged and answered \<open>not_supported\<close>, so that no session is changed; \<open>dispute\<close> or
  \<open>chargeback\<close> is logged as a warning that asks for manual review and answered
  \<open>not_supported\<close>; any other status is \<open>not_supported\<close>.
\<close>

theorem getWebhookActionAndData_classifies:
  assumes "valid_fields rt logger payload webhook"
    and "verifyResponseHash config (webhookHashParams webhook) = Inr True"
    and "get_prop webhook ''status'' = JString s"
    and "loggable webhook"
  shows "\<exists>a. toStr (get_prop webhook ''amount'') = Some a \<and>
     (case spec_classify s of
        SpecAuthorized \<Rightarrow>
          snd (getWebhookActionAndData config rt logger payload) =
            (if parseFloat a = NaN then not_supported
             else \<lparr>wa_action = action_authorized,
                   wa_data = Some \<lparr>wd_session_id = sessionCorrelationId webhook,
                                   wd_amount = parseFloat a\<rparr>\<rparr>)
      | SpecFailed \<Rightarrow>
          snd (getWebhookActionAndData config rt logger payload) =
            (if parseFloat a = NaN then not_supported
             else \<lparr>wa_action = action_failed,
                   wa_data = Some \<lparr>wd_session_id = sessionCorrelationId webhook,
                                   wd_amount = parseFloat a\<rparr>\<rparr>)
      | SpecAcknowledged \<Rightarrow>
          snd (getWebhookActionAndData config rt logger payload) = not_supported \<and>
          (logger Info \<longrightarrow>
           (Info, RefundProcessed) \<in> set (fst (getWebhookActionAndData config rt logger payload)))
      | SpecManualReview \<Rightarrow>
          snd (getWebhookActionAndData config rt logger payload) = not_supported \<and>
          (logger Warn \<longrightarrow>
           (Warn, DisputeChargebackManualReview) \<in>
             set (fst (getWebhookActionAndData config rt logger payload)))
      | SpecUnsupported \<Rightarrow>
          snd (getWebhookActionAndData config rt logger payload) = not_supported)"
proof -
  from assms(4) obtain a where a: "toStr (get_prop webhook ''amount'') = Some a"
    by (auto simp: loggable_def)
  have t: "snd (webhookTry config rt logger payload) = snd (classifyWebhook logger webhook)"
    by (simp add: snd_webhookTry_loggable [OF assms(1,4)] assms(2))
  note c = snd_classifyWebhook [OF assms(3,4) a, of logger]
  have l: "snd (classifyWebhook logger webhook) = Inr not_supported \<Longrightarrow>
      x \<in> set (fst (classifyWebhook logger webhook)) \<Longrightarrow>
      x \<in> set (fst (getWebhookActionAndData config rt logger payload))" for x
    using fst_getWebhookActionAndData [of config rt logger payload not_supported]
      fst_webhookTry_classified [OF assms(1,2,4), of x] t by simp
  have "case spec_classify s of
        SpecAuthorized \<Rightarrow>
          snd (getWebhookActionAndData config rt logger payload) =
            (if parseFloat a = NaN then not_supported
             else \<lparr>wa_action = action_authorized,
                   wa_data = Some \<lparr>wd_session_id = sessionCorrelationId webhook,
                                   wd_amount = parseFloat a\<rparr>\<rparr>)
      | SpecFailed \<Rightarrow>
          snd (getWebhookActionAndData config rt logger payload) =
            (if parseFloat a = NaN then not_supported
             else \<lparr>wa_action = action_failed,
                   wa_data = Some \<lparr>wd_session_id = sessionCorrelationId webhook,
                                   wd_amount = parseFloat a\<rparr>\<rparr>)
      | SpecAcknowledged \<Rightarrow>
          snd (getWebhookActionAndData config rt logger payload) = not_supported \<and>
          (logger Info \<longrightarrow>
           (Info, RefundProcessed) \<in> set (fst (getWebhookActionAndData config rt logger payload)))
      | SpecManualReview \<Rightarrow>
          snd (getWebhookActionAndData config rt logger payload) = not_supported \<and>
          (logger Warn \<longrightarrow>
           (Warn, DisputeChargebackManualReview) \<in>
             set (fst (getWebhookActionAndData config rt logger payload)))
      | SpecUnsupported \<Rightarrow>
          snd (getWebhookActionAndData config rt logger payload) = not_supported"
  proof (cases "spec_classify s")
    case SpecAuthorized
    with c show ?thesis
      by (simp add: snd_getWebhookActionAndData t BigNumber_def)
  next
    case SpecFailed
    with c show ?thesis
      by (simp add: snd_getWebhookActionAndData t BigNumber_def)
  next
    case SpecAcknowledged
    with c have n: "snd (classifyWebhook logger webhook) = Inr not_supported" by simp
    with SpecAcknowledged fst_classifyWebhook [OF assms(3,4), of logger] l show ?thesis
      by (simp add: snd_getWebhookActionAndData t)
  next
    case SpecManualReview
    with c have n: "snd (classifyWebhook logger webhook) = Inr not_supported" by simp
    with SpecManualReview fst_classifyWebhook [OF assms(3,4), of logger] l show ?thesis
      by (simp add: snd_getWebhookActionAndData t)
  next
    case SpecUnsupported
    with c show ?thesis
      by (simp add: snd_getWebhookActionAndData t)
  qed
  with a show ?thesis by blast
qed
lemma spec_classify_success: "spec_classify ''success'' = SpecAuthorized"
  by (simp add: spec_classify_def toLowerCase_def lower_char_def)

lemma status_webhook_of:
  "fst ` set entries \<subseteq> {''amount'', ''mihpayid''} \<Longrightarrow>
   get_prop (webhook_of h entries) ''status'' = JString ''success''"
  by (subst get_prop_webhook_of) (auto simp: webhook_base_def)

lemma sessionCorrelationId_webhook_of:
  "fst ` set entries \<subseteq> {''amount'', ''mihpayid''} \<Longrightarrow>
   sessionCorrelationId (webhook_of h entries) = JString ''sess_abc''"
  unfolding sessionCorrelationId_def
  by (subst (1 2) get_prop_webhook_of) (auto simp: webhook_base_def)

theorem getWebhookActionAndData_classifies_witness:
  "valid_fields runtime0 logger0 payload0
     (webhook_of (JString ''ba96e2ddd786cacd93a4057db0088e2afc82bb4af3e8f1438dd082b25f8938e6c61350d04ccff0e5aaef75692ece10f3760dd4bc16979321043fd5a2cdd6686b'')
        [(''amount'', JString ''500.00'')]) \<and>
   verifyResponseHash config0 (webhookHashParams
     (webhook_of (JString ''ba96e2ddd786cacd93a4057db0088e2afc82bb4af3e8f1438dd082b25f8938e6c61350d04ccff0e5aaef75692ece10f3760dd4bc16979321043fd5a2cdd6686b'')
        [(''amount'', JString ''500.00'')])) = Inr True \<and>
   get_prop (webhook_of (JString ''ba96e2ddd786cacd93a4057db0088e2afc82bb4af3e8f1438dd082b25f8938e6c61350d04ccff0e5aaef75692ece10f3760dd4bc16979321043fd5a2cdd6686b'')
        [(''amount'', JString ''500.00'')]) ''status'' = JString ''success'' \<and>
   loggable (webhook_of (JString ''ba96e2ddd786cacd93a4057db0088e2afc82bb4af3e8f1438dd082b25f8938e6c61350d04ccff0e5aaef75692ece10f3760dd4bc16979321043fd5a2cdd6686b'')
        [(''amount'', JString ''500.00'')]) \<and>
   snd (getWebhookActionAndData config0 runtime0 logger0 payload0) =
     \<lparr>wa_action = action_authorized,
      wa_data = Some \<lparr>wd_session_id = JString ''sess_abc'', wd_amount = Finite 500\<rparr>\<rparr>"
proof -
  let ?w = "webhook_of (JString ''ba96e2ddd786cacd93a4057db0088e2afc82bb4af3e8f1438dd082b25f8938e6c61350d04ccff0e5aaef75692ece10f3760dd4bc16979321043fd5a2cdd6686b'')
        [(''amount'', JString ''500.00'')]"
  have a: "valid_fields runtime0 logger0 payload0 ?w"
    unfolding payload0_def by (rule valid_fields_payload_of) simp_all
  have b: "verifyResponseHash config0 (webhookHashParams ?w) = Inr True"
    by (rule verified_payload0)
  have c: "get_prop ?w ''status'' = JString ''success''"
    by (rule status_webhook_of) simp
  have d: "loggable ?w" by (rule loggable_webhook_of_amount)
  have e: "toStr (get_prop ?w ''amount'') = Some ''500.00''"
    by (simp add: webhook_of_def)
  have f: "sessionCorrelationId ?w = JString ''sess_abc''"
    by (rule sessionCorrelationId_webhook_of) simp
  from getWebhookActionAndData_classifies [OF a b c d] a b c d show ?thesis
    by (simp add: e f spec_classify_success parseFloat_500)
qed

text \<open>
  Claim C6 as stated fails.  A webhook with the status \<open>success\<close> and a valid hash is
  answered \<open>not_supported\<close> when it has no amount, and when a field that is only logged
  (here the gateway's transaction id) cannot be converted to a string.
\<close>

theorem getWebhookActionAndData_classifies_counterexample:
  "valid_fields runtime0 logger0 payload_no_amount
     (webhook_of (JString ''b7a5174f208e5bf189ba0381552a31846979e9e05db4efd1a2d868f52118d375c05c0b97c81a384b6200f3f7a247dc041a0e342dc6fecb279903f6b4f7b90b0e'') []) \<and>
   verifyResponseHash config0 (webhookHashParams
     (webhook_of (JString ''b7a5174f208e5bf189ba0381552a31846979e9e05db4efd1a2d868f52118d375c05c0b97c81a384b6200f3f7a247dc041a0e342dc6fecb279903f6b4f7b90b0e'') [])) = Inr True \<and>
   get_prop (webhook_of (JString ''b7a5174f208e5bf189ba0381552a31846979e9e05db4efd1a2d868f52118d375c05c0b97c81a384b6200f3f7a247dc041a0e342dc6fecb279903f6b4f7b90b0e'') [])
     ''status'' = JString ''success'' \<and>
   snd (getWebhookActionAndData config0 runtime0 logger0 payload_no_amount) = not_supported \<and>
   valid_fields runtime0 logger0 payload_object_mihpayid
     (webhook_of (JString ''ba96e2ddd786cacd93a4057db0088e2afc82bb4af3e8f1438dd082b25f8938e6c61350d04ccff0e5aaef75692ece10f3760dd4bc16979321043fd5a2cdd6686b'')
        [(''amount'', JString ''500.00''), (''mihpayid'', JObject [(''toString'', JNull)])]) \<and>
   verifyResponseHash config0 (webhookHashParams
     (webhook_of (JString ''ba96e2ddd786cacd93a4057db0088e2afc82bb4af3e8f1438dd082b25f8938e6c61350d04ccff0e5aaef75692ece10f3760dd4bc16979321043fd5a2cdd6686b'')
        [(''amount'', JString ''500.00''), (''mihpayid'', JObject [(''toString'', JNull)])])) =
     Inr True \<and>
   get_prop (webhook_of (JString ''ba96e2ddd786cacd93a4057db0088e2afc82bb4af3e8f1438dd082b25f8938e6c61350d04ccff0e5aaef75692ece10f3760dd4bc16979321043fd5a2cdd6686b'')
        [(''amount'', JString ''500.00''), (''mihpayid'', JObject [(''toString'', JNull)])])
     ''status'' = JString ''success'' \<and>
   snd (getWebhookActionAndData config0 runtime0 logger0 payload_object_mihpayid) = not_supported"
proof -
  let ?w = "webhook_of (JString ''b7a5174f208e5bf189ba0381552a31846979e9e05db4efd1a2d868f52118d375c05c0b97c81a384b6200f3f7a247dc041a0e342dc6fecb279903f6b4f7b90b0e'') []"
  let ?v = "webhook_of (JString ''ba96e2ddd786cacd93a4057db0088e2afc82bb4af3e8f1438dd082b25f8938e6c61350d04ccff0e5aaef75692ece10f3760dd4bc16979321043fd5a2cdd6686b'')
        [(''amount'', JString ''500.00''), (''mihpayid'', JObject [(''toString'', JNull)])]"
  have a: "valid_fields runtime0 logger0 payload_no_amount ?w"
    unfolding payload_no_amount_def by (rule valid_fields_payload_of) simp_all
  have b: "verifyResponseHash config0 (webhookHashParams ?w) = Inr True"
    by (rule verified_payload_no_amount)
  have c: "get_prop ?w ''status'' = JString ''success''"
    by (rule status_webhook_of) simp
  have d: "toStr (get_prop ?w ''amount'') = Some ''undefined''"
    by (simp add: webhook_of_def webhook_base_def)
  have "snd (webhookTry config0 runtime0 logger0 payload_no_amount) =
      snd (classifyWebhook logger0 ?w)"
    by (simp add: snd_webhookTry_loggable [OF a loggable_webhook_of_no_amount] b)
  also have "\<dots> = Inl (Error (''Invalid BigNumber value: NaN. Should be one of: string, number, '' @
                       ''BigNumber (bignumber.js), BigNumberRawValue''))"
    by (simp add: snd_classifyWebhook [OF c loggable_webhook_of_no_amount d]
        spec_classify_success parseFloat_undefined BigNumber_def)
  finally have e: "snd (getWebhookActionAndData config0 runtime0 logger0 payload_no_amount) =
      not_supported"
    by (rule getWebhook_exception)
  have a': "valid_fields runtime0 logger0 payload_object_mihpayid ?v"
    unfolding payload_object_mihpayid_def by (rule valid_fields_payload_of) simp_all
  have b': "verifyResponseHash config0 (webhookHashParams ?v) = Inr True"
    by (rule verified_payload_object_mihpayid)
  have c': "get_prop ?v ''status'' = JString ''success''"
    by (rule status_webhook_of) simp
  have "toStr (js_or (get_prop ?v ''mihpayid'') (JString ''N/A'')) = None"
    by (simp add: webhook_of_def js_or_def)
  then have "snd (webhookTry config0 runtime0 logger0 payload_object_mihpayid) = Inl cannot_convert"
    unfolding snd_webhookTry_valid [OF a'] by (simp add: snd_emit logger0_def)
  then have e': "snd (getWebhookActionAndData config0 runtime0 logger0 payload_object_mihpayid) =
      not_supported"
    by (rule getWebhook_exception)
  from a b c e a' b' c' e' show ?thesis by blast
qed

text \<open>What a classification that carries data tells.\<close>

lemma classifyWebhook_data:
  assumes "snd (classifyWebhook logger webhook) = Inr \<lparr>wa_action = act, wa_data = Some d\<rparr>"
  shows "\<exists>a. toStr (get_prop webhook ''amount'') = Some a \<and> parseFloat a \<noteq> NaN \<and>
           wd_amount d = parseFloat a \<and> (act = action_authorized \<or> act = action_failed)"
proof -
  from assms obtain s where s: "get_prop webhook ''status'' = JString s"
    by (cases "get_prop webhook ''status''") (simp_all add: classifyWebhook_def)
  have y: "snd (and_then m (\<lambda>_. yield not_supported)) \<noteq> Inr \<lparr>wa_action = act, wa_data = Some d\<rparr>"
    for m :: "unit attempt"
    by (simp add: snd_and_then yield_def not_supported_def split: sum.splits)
  have k: "snd (and_then m (\<lambda>_. and_then (webhookAmount webhook) (\<lambda>a.
              yield \<lparr>wa_action = act', wa_data = Some \<lparr>wd_session_id = i, wd_amount = a\<rparr>\<rparr>))) =
           Inr \<lparr>wa_action = act, wa_data = Some d\<rparr> \<Longrightarrow>
        act = act' \<and> (\<exists>a. toStr (get_prop webhook ''amount'') = Some a \<and> parseFloat a \<noteq> NaN \<and>
           wd_amount d = parseFloat a)"
    for m :: "unit attempt" and act' i
    by (auto simp: snd_and_then yield_def webhookAmount_def BigNumber_def
        split: sum.splits option.splits if_splits)
  from assms show ?thesis
    unfolding classifyWebhook_def Let_def s
    using y k by (auto split: if_splits)
qed

text \<open>
  Claim C8, as the code has it.  When the handler answers with data, the webhook was
  verified and classified as authorized or failed, and the amount of the answer is the
  number that \<open>parseFloat\<close> reads from the amount of the payload.  For a decimal amount
  \<open>ip.fp\<close> that is the double nearest to it; it is the amount itself when the fraction
  digits are zeros and the whole part is below \<open>2^53\<close>.
\<close>

theorem getWebhookActionAndData_amount:
  assumes "snd (selectWebhook rt logger payload) = Inr (Some webhook)"
    and "snd (getWebhookActionAndData config rt logger payload) =
           \<lparr>wa_action = act, wa_data = Some d\<rparr>"
  shows "verifyResponseHash config (webhookHashParams webhook) = Inr True \<and>
         (act = action_authorized \<or> act = action_failed) \<and>
         (\<exists>a. toStr (get_prop webhook ''amount'') = Some a \<and> wd_amount d = parseFloat a \<and>
            parseFloat a \<noteq> NaN \<and>
            (\<forall>ip fp. a = ip @ ''.'' @ fp \<and> list_all isDigit ip \<and> ip \<noteq> [] \<and> list_all isDigit fp \<longrightarrow>
               wd_amount d = round_double (digitsValue (ip @ fp)) (10 ^ length fp) \<and>
               (digitsValue fp = 0 \<and> digitsValue ip < 2 ^ 53 \<longrightarrow>
                  wd_amount d = Finite (decimal_value ip fp))))"
proof -
  let ?r = "\<lparr>wa_action = act, wa_data = Some d\<rparr>"
  have ns: "?r \<noteq> not_supported" by (simp add: not_supported_def)
  from assms(2) ns have t: "snd (webhookTry config rt logger payload) = Inr ?r"
    by (cases "snd (webhookTry config rt logger payload)")
       (simp_all add: snd_getWebhookActionAndData)
  have v: "valid_fields rt logger payload webhook"
  proof (rule ccontr)
    assume "\<not> valid_fields rt logger payload webhook"
    with assms(1) have "snd (getWebhookActionAndData config rt logger payload) = not_supported"
      by (intro getWebhook_missing_fields [OF assms(1)]) (simp add: valid_fields_def)
    with assms(2) ns show False by simp
  qed
  from t ns have ok: "verifyResponseHash config (webhookHashParams webhook) = Inr True"
    and c: "snd (classifyWebhook logger webhook) = Inr ?r"
    unfolding snd_webhookTry_valid [OF v]
    by (auto split: sum.splits if_splits)
  from classifyWebhook_data [OF c] obtain a where
    a: "toStr (get_prop webhook ''amount'') = Some a" "parseFloat a \<noteq> NaN"
      "wd_amount d = parseFloat a" and act: "act = action_authorized \<or> act = action_failed"
    by blast
  have "wd_amount d = round_double (digitsValue (ip @ fp)) (10 ^ length fp) \<and>
        (digitsValue fp = 0 \<and> digitsValue ip < 2 ^ 53 \<longrightarrow>
           wd_amount d = Finite (decimal_value ip fp))"
    if "a = ip @ ''.'' @ fp \<and> list_all isDigit ip \<and> ip \<noteq> [] \<and> list_all isDigit fp" for ip fp
    using that a(3) parseFloat_decimal [of ip fp] parseFloat_whole [of ip fp] by auto
  with ok act a show ?thesis by blast
qed

theorem getWebhookActionAndData_amount_witness:
  "snd (selectWebhook runtime0 logger0 payload0) =
     Inr (Some (webhook_of (JString ''ba96e2ddd786cacd93a4057db0088e2afc82bb4af3e8f1438dd082b25f8938e6c61350d04ccff0e5aaef75692ece10f3760dd4bc16979321043fd5a2cdd6686b'')
        [(''amount'', JString ''500.00'')])) \<and>
   snd (getWebhookActionAndData config0 runtime0 logger0 payload0) =
     \<lparr>wa_action = action_authorized,
      wa_data = Some \<lparr>wd_session_id = JString ''sess_abc'', wd_amount = Finite 500\<rparr>\<rparr> \<and>
   list_all isDigit ''500'' \<and> list_all isDigit ''00'' \<and> digitsValue ''00'' = 0 \<and>
   digitsValue ''500'' < 2 ^ 53 \<and>
   Finite 500 = round_double (digitsValue ''50000'') (10 ^ length ''00'') \<and>
   Finite 500 = Finite (decimal_value ''500'' ''00'')"
proof -
  let ?w = "webhook_of (JString ''ba96e2ddd786cacd93a4057db0088e2afc82bb4af3e8f1438dd082b25f8938e6c61350d04ccff0e5aaef75692ece10f3760dd4bc16979321043fd5a2cdd6686b'')
        [(''amount'', JString ''500.00'')]"
  let ?d = "\<lparr>wd_session_id = JString ''sess_abc'', wd_amount = Finite 500\<rparr>"
  have a: "valid_fields runtime0 logger0 payload0 ?w"
    unfolding payload0_def by (rule valid_fields_payload_of) simp_all
  then have sel: "snd (selectWebhook runtime0 logger0 payload0) = Inr (Some ?w)"
    by (simp add: valid_fields_def)
  have c: "get_prop ?w ''status'' = JString ''success''"
    by (rule status_webhook_of) simp
  have e: "toStr (get_prop ?w ''amount'') = Some ''500.00''"
    by (simp add: webhook_of_def)
  have f: "sessionCorrelationId ?w = JString ''sess_abc''"
    by (rule sessionCorrelationId_webhook_of) simp
  have "snd (webhookTry config0 runtime0 logger0 payload0) = snd (classifyWebhook logger0 ?w)"
    by (simp add: snd_webhookTry_loggable [OF a loggable_webhook_of_amount] verified_payload0)
  also have "\<dots> = Inr \<lparr>wa_action = action_authorized, wa_data = Some ?d\<rparr>"
    by (simp add: snd_classifyWebhook [OF c loggable_webhook_of_amount e]
        spec_classify_success parseFloat_500 BigNumber_def f)
  finally have res: "snd (getWebhookActionAndData config0 runtime0 logger0 payload0) =
      \<lparr>wa_action = action_authorized, wa_data = Some ?d\<rparr>"
    by (simp add: snd_getWebhookActionAndData)
  have g: "list_all isDigit ''500''" "list_all isDigit ''00''" "digitsValue ''00'' = 0"
    "digitsValue ''500'' < 2 ^ 53"
    by (simp_all add: isDigit_def digitsValue_def)
  from getWebhookActionAndData_amount [OF sel res] obtain a where
    a: "toStr (get_prop ?w ''amount'') = Some a" and
    r: "\<And>ip fp. a = ip @ ''.'' @ fp \<and> list_all isDigit ip \<and> ip \<noteq> [] \<and> list_all isDigit fp \<Longrightarrow>
          wd_amount ?d = round_double (digitsValue (ip @ fp)) (10 ^ length fp) \<and>
          (digitsValue fp = 0 \<and> digitsValue ip < 2 ^ 53 \<longrightarrow>
             wd_amount ?d = Finite (decimal_value ip fp))"
    by blast
  from a e have "a = ''500'' @ ''.'' @ ''00''" by simp
  with g have "a = ''500'' @ ''.'' @ ''00'' \<and> list_all isDigit ''500'' \<and> ''500'' \<noteq> [] \<and>
      list_all isDigit ''00''" by simp
  from r [OF this] g
  have "wd_amount ?d = round_double (digitsValue (''500'' @ ''00'')) (10 ^ length ''00'') \<and>
        wd_amount ?d = Finite (decimal_value ''500'' ''00'')"
    by blast
  with sel res g show ?thesis by simp
qed

text \<open>
  Claim C8 as stated fails: the amount \<open>9007199254740993.01\<close> of a verified webhook is
  carried as the number \<open>9007199254740994\<close>.
\<close>

theorem getWebhookActionAndData_amount_counterexample:
  "get_prop (webhook_of (JString ''eee0197c834cdb076308cccbd0de48ef3907c5bf09713ede81881cd6b45854279bfa2a1d79d63a679b3fc3151f44f1f5be4475900dae41cb4aecbbb66f679c93'')
        [(''amount'', JString ''9007199254740993.01'')]) ''amount'' =
     JString ''9007199254740993.01'' \<and>
   snd (selectWebhook runtime0 logger0 payload_large_amount) =
     Inr (Some (webhook_of (JString ''eee0197c834cdb076308cccbd0de48ef3907c5bf09713ede81881cd6b45854279bfa2a1d79d63a679b3fc3151f44f1f5be4475900dae41cb4aecbbb66f679c93'')
        [(''amount'', JString ''9007199254740993.01'')])) \<and>
   snd (getWebhookActionAndData config0 runtime0 logger0 payload_large_amount) =
     \<lparr>wa_action = action_authorized,
      wa_data = Some \<lparr>wd_session_id = JString ''sess_abc'',
                      wd_amount = Finite 9007199254740994\<rparr>\<rparr> \<and>
   decimal_value ''9007199254740993'' ''01'' = 900719925474099301 / 100 \<and>
   Finite 9007199254740994 \<noteq> Finite (decimal_value ''9007199254740993'' ''01'')"
proof -
  let ?w = "webhook_of (JString ''eee0197c834cdb076308cccbd0de48ef3907c5bf09713ede81881cd6b45854279bfa2a1d79d63a679b3fc3151f44f1f5be4475900dae41cb4aecbbb66f679c93'')
        [(''amount'', JString ''9007199254740993.01'')]"
  have a: "valid_fields runtime0 logger0 payload_large_amount ?w"
    unfolding payload_large_amount_def by (rule valid_fields_payload_of) simp_all
  then have sel: "snd (selectWebhook runtime0 logger0 payload_large_amount) = Inr (Some ?w)"
    by (simp add: valid_fields_def)
  have c: "get_prop ?w ''status'' = JString ''success''"
    by (rule status_webhook_of) simp
  have e: "get_prop ?w ''amount'' = JString ''9007199254740993.01''"
    by (simp add: webhook_of_def)
  then have e': "toStr (get_prop ?w ''amount'') = Some ''9007199254740993.01''" by simp
  have f: "sessionCorrelationId ?w = JString ''sess_abc''"
    by (rule sessionCorrelationId_webhook_of) simp
  have "snd (webhookTry config0 runtime0 logger0 payload_large_amount) =
      snd (classifyWebhook logger0 ?w)"
    by (simp add: snd_webhookTry_loggable [OF a loggable_webhook_of_amount]
        verified_payload_large_amount)
  also have "\<dots> = Inr \<lparr>wa_action = action_authorized,
      wa_data = Some \<lparr>wd_session_id = JString ''sess_abc'',
                      wd_amount = Finite 9007199254740994\<rparr>\<rparr>"
    by (simp add: snd_classifyWebhook [OF c loggable_webhook_of_amount e']
        spec_classify_success parseFloat_large BigNumber_def f)
  finally have res: "snd (getWebhookActionAndData config0 runtime0 logger0 payload_large_amount) =
      \<lparr>wa_action = action_authorized,
       wa_data = Some \<lparr>wd_session_id = JString ''sess_abc'',
                       wd_amount = Finite 9007199254740994\<rparr>\<rparr>"
    by (simp add: snd_getWebhookActionAndData)
  have g: "decimal_value ''9007199254740993'' ''01'' = 900719925474099301 / 100"
    by (simp add: decimal_value_def digitsValue_def)
  from e sel res g show ?thesis by simp
qed

text \<open>
  Claim C10.  The handler returns an answer for every payload.  When the payload has no
  recognizable structure, when the webhook lacks a txnid, a status or a hash, and when the
  \<open>try\<close> block ends in an exception, the answer is \<open>not_supported\<close>.
\<close>

theorem getWebhookActionAndData_total:
  assumes "snd (selectWebhook rt logger payload) = Inr None \<or>
           (\<exists>webhook. snd (selectWebhook rt logger payload) = Inr (Some webhook) \<and>
              (\<not> truthy (get_prop webhook ''txnid'') \<or> \<not> truthy (get_prop webhook ''status'') \<or>
               \<not> truthy (get_prop webhook ''hash''))) \<or>
           (\<exists>e. snd (webhookTry config rt logger payload) = Inl e)"
  shows "snd (getWebhookActionAndData config rt logger payload) = not_supported"
  using assms getWebhook_no_webhook getWebhook_missing_fields getWebhook_exception
  by blast

theorem getWebhookActionAndData_total_witness:
  "snd (selectWebhook runtime0 logger0 JNull) = Inr None \<and>
   snd (getWebhookActionAndData config0 runtime0 logger0 JNull) = not_supported \<and>
   snd (selectWebhook runtime0 logger0 payload_txnid_only) = Inr (Some payload_txnid_only) \<and>
   \<not> truthy (get_prop payload_txnid_only ''status'') \<and>
   snd (getWebhookActionAndData config0 runtime0 logger0 payload_txnid_only) = not_supported \<and>
   snd (webhookTry config0 runtime0 logger0 payload_numeric_hash) =
     Inl (TypeError ''params.hash.toLowerCase is not a function'') \<and>
   snd (getWebhookActionAndData config0 runtime0 logger0 payload_numeric_hash) = not_supported"
proof -
  let ?w = "webhook_of (JOther True ''12345'') [(''amount'', JString ''500.00'')]"
  have a: "snd (selectWebhook runtime0 logger0 JNull) = Inr None"
    by (simp add: selectWebhook_def snd_and_then snd_emit yield_def)
  have b: "snd (selectWebhook runtime0 logger0 payload_txnid_only) = Inr (Some payload_txnid_only)"
    "\<not> truthy (get_prop payload_txnid_only ''status'')"
    by (simp_all add: selectWebhook_def payload_txnid_only_def snd_and_then snd_emit yield_def)
  have v: "valid_fields runtime0 logger0 payload_numeric_hash ?w"
    unfolding payload_numeric_hash_def by (rule valid_fields_payload_of) simp_all
  have "responseHashString config0 (webhookHashParams ?w) =
      Some (''SALT|success||||||||||sess_abc|a@b.com|Jane|Order|'' @ ''500.00'' @ ''|TXN1|KEY'')"
    unfolding webhookHashParams_webhook_of [of "[(''amount'', JString ''500.00'')]", simplified]
    by (rule responseHashString_amount) (simp add: webhook_of_def)
  moreover have "rh_hash (webhookHashParams ?w) = JOther True ''12345''"
    by (simp add: webhookHashParams_def webhook_of_def)
  ultimately have "verifyResponseHash config0 (webhookHashParams ?w) =
      Inl (TypeError ''params.hash.toLowerCase is not a function'')"
    by (simp add: verifyResponseHash_def not_a_function_def)
  then have c: "snd (webhookTry config0 runtime0 logger0 payload_numeric_hash) =
      Inl (TypeError ''params.hash.toLowerCase is not a function'')"
    by (simp add: snd_webhookTry_loggable [OF v loggable_webhook_of_amount])
  from getWebhookActionAndData_total [of runtime0 logger0 JNull config0]
    getWebhookActionAndData_total [of runtime0 logger0 payload_txnid_only config0]
    getWebhookActionAndData_total [of runtime0 logger0 payload_numeric_hash config0] a b c
  show ?thesis by blast
qed

end
